theory Spec2Isabelle
  imports Main
begin

section \<open>smallsh: a small shell with built-ins (smallsh.c)\<close>

text \<open>
  The development follows \<^verbatim>\<open>smallsh.c\<close> function by function: the command
  descriptor and its parser (\<^verbatim>\<open>initCommand\<close>, \<^verbatim>\<open>getCommand\<close>), the dispatcher and
  launcher (\<^verbatim>\<open>execCommand\<close>), the reaper (\<^verbatim>\<open>cleanUp\<close>) and the interpreter loop
  (\<^verbatim>\<open>main\<close>). The C library and the kernel are not part of the program; the calls the
  program makes to them are given a small explicit semantics, and what the kernel or
  the file system alone decides (which pid \<^verbatim>\<open>fork\<close> returns, whether a file opens,
  how a program ends) is an input of the model.
\<close>

subsection \<open>Constants and the command descriptor\<close>

definition MAX_CMD_CHARS :: nat where
  "MAX_CMD_CHARS = 2048"

definition MAX_CMD_ARGS :: nat where
  "MAX_CMD_ARGS = 512"

definition DELIM :: string where
  "DELIM = [CHR '' '', CHR 0x09, CHR 0x0A]"

definition DEVNULL :: string where
  "DEVNULL = ''/dev/null''"

text \<open>
  \<^verbatim>\<open>struct Command\<close>. A \<^verbatim>\<open>char *\<close> is a \<open>string option\<close>, \<open>None\<close> being the null
  pointer; \<^verbatim>\<open>argv\<close> is the array of \<^verbatim>\<open>MAX_CMD_ARGS\<close> slots.
\<close>

record Command =
  argv :: "string option list"
  argc :: int
  isBgProcess :: int
  wantsInputR :: int
  wantsOutputR :: int
  inRedirFile :: "string option"
  outRedirFile :: "string option"

text \<open>
  What C leaves undefined is a value of the model: duplicating a null string, and a
  store outside the argument array.
\<close>

datatype error = NullPointer | OutOfBounds

text \<open>\<^verbatim>\<open>initCommand\<close> (lines 84-94), applied to the freshly allocated descriptor.\<close>

definition initCommand :: Command where
  "initCommand =
     \<lparr>argv = replicate MAX_CMD_ARGS None, argc = 0, isBgProcess = 0,
      wantsInputR = 0, wantsOutputR = 0, inRedirFile = None, outRedirFile = None\<rparr>"

subsection \<open>Reading and tokenising a line\<close>

text \<open>
  \<^verbatim>\<open>fgets(input, n, stdin)\<close>: at most \<open>n - 1\<close> characters are taken from the pending
  input, stopping after a newline; the rest stays pending. At end of input nothing is
  stored and the zeroed buffer is the empty string.
\<close>

fun fgets :: "nat \<Rightarrow> string \<Rightarrow> string \<times> string" where
  "fgets n [] = ([], [])"
| "fgets n (c # cs) =
     (if n \<le> 1 then ([], c # cs)
      else if c = CHR 0x0A then ([c], cs)
      else (case fgets (n - 1) cs of (l, r) \<Rightarrow> (c # l, r)))"

text \<open>The buffer is read as a C string: it ends at the first zero byte.\<close>

definition c_str :: "string \<Rightarrow> string" where
  "c_str s = takeWhile (\<lambda>c. c \<noteq> CHR 0x00) s"

definition is_delim :: "char \<Rightarrow> bool" where
  "is_delim c = (c \<in> set DELIM)"

text \<open>
  \<^verbatim>\<open>strtok\<close> with its cursor made explicit: from the text still ahead of the cursor it
  skips delimiters, returns the next token (or the null pointer when none is left) and
  the text after the delimiter that ended the token.
\<close>

definition strtok :: "string \<Rightarrow> string option \<times> string" where
  "strtok s =
     (let s1 = dropWhile is_delim s in
      if s1 = [] then (None, [])
      else (Some (takeWhile (\<lambda>c. \<not> is_delim c) s1),
            drop 1 (dropWhile (\<lambda>c. \<not> is_delim c) s1)))"

text \<open>\<^verbatim>\<open>strdup\<close>: the argument must be a string; a null pointer is undefined.\<close>

definition strdup :: "string option \<Rightarrow> error + string option" where
  "strdup p = (case p of None \<Rightarrow> Inl NullPointer | Some x \<Rightarrow> Inr (Some x))"

lemma strtok_le: "strtok s = (t, r) \<Longrightarrow> length r \<le> length s"
proof -
  have a: "length (dropWhile (\<lambda>c. \<not> is_delim c) (dropWhile is_delim s)) \<le> length s"
    by (meson length_dropWhile_le order_trans)
  assume "strtok s = (t, r)"
  then show ?thesis using a
    by (auto simp: strtok_def Let_def split: if_splits)
qed

lemma strtok_less: "strtok s = (Some t, r) \<Longrightarrow> length r < length s"
proof -
  assume h: "strtok s = (Some t, r)"
  define s1 where "s1 = dropWhile is_delim s"
  from h have ne: "s1 \<noteq> []" and r: "r = drop 1 (dropWhile (\<lambda>c. \<not> is_delim c) s1)"
    by (auto simp: strtok_def Let_def s1_def split: if_splits)
  from ne obtain c cs where cs: "s1 = c # cs" by (cases s1) auto
  have "\<not> is_delim c"
    using hd_dropWhile [of is_delim s] ne cs by (simp add: s1_def)
  then have "length (dropWhile (\<lambda>c. \<not> is_delim c) s1) \<le> length cs"
    by (simp add: cs length_dropWhile_le)
  then have "length r < length s1" using r cs by simp
  moreover have "length s1 \<le> length s" by (simp add: s1_def length_dropWhile_le)
  ultimately show ?thesis by simp
qed

lemma strtok_cursor:
  "strtok s = (t, r) \<Longrightarrow> (case t of None \<Rightarrow> 0 | Some _ \<Rightarrow> Suc (length r)) \<le> length s"
  using strtok_less [of s _ r] by (cases t) auto

lemma strtok_next:
  "(t, r) = strtok s \<Longrightarrow> (case t of None \<Rightarrow> 0 | Some _ \<Rightarrow> Suc (length r)) < Suc (length s)"
  using strtok_cursor [of s t r] by simp

lemma strtok_next2:
  "(t1, r1) = strtok s \<Longrightarrow> (t, r) = strtok r1 \<Longrightarrow>
     (case t of None \<Rightarrow> 0 | Some _ \<Rightarrow> Suc (length r)) < Suc (length s)"
  using strtok_next [of t r r1] strtok_le [of s t1 r1] by simp

subsection \<open>The parser: getCommand\<close>

text \<open>
  The \<^verbatim>\<open>while (token)\<close> loop of \<^verbatim>\<open>getCommand\<close> (lines 135-168). The arguments are the
  current token, the text ahead of the \<^verbatim>\<open>strtok\<close> cursor and the descriptor.
\<close>

function parseLoop :: "string option \<Rightarrow> string \<Rightarrow> Command \<Rightarrow> error + Command" where
  "parseLoop None rest cmd = Inr cmd"
| "parseLoop (Some token) rest cmd =
     (if token = ''<'' then
        (case strtok rest of (token1, rest1) \<Rightarrow>
          (case strdup token1 of
             Inl e \<Rightarrow> Inl e
           | Inr p \<Rightarrow>
              (case strtok rest1 of (token2, rest2) \<Rightarrow>
                 parseLoop token2 rest2 (cmd\<lparr>wantsInputR := 1, inRedirFile := p\<rparr>))))
      else if token = ''>'' then
        (case strtok rest of (token1, rest1) \<Rightarrow>
          (case strdup token1 of
             Inl e \<Rightarrow> Inl e
           | Inr p \<Rightarrow>
              (case strtok rest1 of (token2, rest2) \<Rightarrow>
                 parseLoop token2 rest2 (cmd\<lparr>wantsOutputR := 1, outRedirFile := p\<rparr>))))
      else if token = ''&'' then
        (case strtok rest of (token2, rest2) \<Rightarrow>
           parseLoop token2 rest2 (cmd\<lparr>isBgProcess := 1\<rparr>))
      else if argc cmd < 0 \<or> int MAX_CMD_ARGS \<le> argc cmd then Inl OutOfBounds
      else
        (case strtok rest of (token2, rest2) \<Rightarrow>
           parseLoop token2 rest2
             (cmd\<lparr>argv := (argv cmd)[nat (argc cmd) := Some token], argc := argc cmd + 1\<rparr>)))"
  by pat_completeness auto
termination
  by (relation "measure (\<lambda>(t, rest, cmd). case t of None \<Rightarrow> 0 | Some _ \<Rightarrow> Suc (length rest))")
    (auto intro: strtok_next strtok_next2)

declare parseLoop.simps(2) [simp del]

text \<open>
  \<^verbatim>\<open>getCommand\<close> on the buffer \<^verbatim>\<open>fgets\<close> filled: first \<^verbatim>\<open>strtok\<close>, the loop, then the
  terminating null pointer stored at \<^verbatim>\<open>argv[argc]\<close> (line 171). Allocation
  (\<^verbatim>\<open>malloc\<close>, \<^verbatim>\<open>strdup\<close> of a string) is assumed to succeed; \<^verbatim>\<open>freeCommand\<close> only
  releases the descriptor and has no counterpart here.
\<close>

definition parseLine :: "string \<Rightarrow> error + Command" where
  "parseLine line =
     (case strtok (c_str line) of (token, rest) \<Rightarrow>
        (case parseLoop token rest initCommand of
           Inl e \<Rightarrow> Inl e
         | Inr cmd \<Rightarrow>
             if argc cmd < 0 \<or> int MAX_CMD_ARGS \<le> argc cmd then Inl OutOfBounds
             else Inr (cmd\<lparr>argv := (argv cmd)[nat (argc cmd) := None]\<rparr>)))"

text \<open>
  The tokens of a line, as successive \<^verbatim>\<open>strtok\<close> calls deliver them; the properties
  of the parser are stated over them.
\<close>

function tokens :: "string \<Rightarrow> string list" where
  "tokens s = (case strtok s of (None, r) \<Rightarrow> [] | (Some t, r) \<Rightarrow> t # tokens r)"
  by pat_completeness auto
termination
proof (relation "measure length")
  fix s :: string and x r t
  assume "(x, r) = strtok s" "x = Some t"
  then show "(r, s) \<in> measure length"
    using strtok_less [of s t r] by simp
qed simp

declare tokens.simps [simp del]

text \<open>
  The tokens left when every redirection marker is taken out together with the token
  that follows it, scanning from the left: the tokens the loop sees in its last two
  branches.
\<close>

fun unredirected :: "string list \<Rightarrow> string list" where
  "unredirected [] = []"
| "unredirected [t] = (if t = ''<'' \<or> t = ''>'' then [] else [t])"
| "unredirected (t # u # ts) =
     (if t = ''<'' \<or> t = ''>'' then unredirected ts else t # unredirected (u # ts))"

text \<open>The current token followed by the tokens ahead of the cursor.\<close>

definition ahead :: "string option \<Rightarrow> string \<Rightarrow> string list" where
  "ahead t rest = (case t of None \<Rightarrow> [] | Some x \<Rightarrow> x # tokens rest)"

subsection \<open>Signals, wait statuses and formatted output\<close>

datatype disposition = SIG_DFL | SIG_IGN

definition SIGINT :: nat where
  "SIGINT = 2"

definition SIGTERM :: nat where
  "SIGTERM = 15"

text \<open>
  A decoded wait status: normal exit with a code, death by a signal, or neither.
\<close>

datatype wstatus = WExited nat | WSignaled nat | WOther

text \<open>
  What the kernel does with a signal whose default action is to terminate, by the
  disposition of the receiving process: the wait status it ends with, or nothing.
\<close>

definition deliver :: "nat \<Rightarrow> disposition \<Rightarrow> wstatus option" where
  "deliver sig d = (case d of SIG_DFL \<Rightarrow> Some (WSignaled sig) | SIG_IGN \<Rightarrow> None)"

text \<open>The wait-status macros of \<^verbatim>\<open>sys/wait.h\<close> on the decoded status.\<close>

fun WIFEXITED :: "wstatus \<Rightarrow> bool" where
  "WIFEXITED (WExited n) = True"
| "WIFEXITED _ = False"

fun WEXITSTATUS :: "wstatus \<Rightarrow> nat" where
  "WEXITSTATUS (WExited n) = n"
| "WEXITSTATUS _ = 0"

fun WIFSIGNALED :: "wstatus \<Rightarrow> bool" where
  "WIFSIGNALED (WSignaled n) = True"
| "WIFSIGNALED _ = False"

fun WTERMSIG :: "wstatus \<Rightarrow> nat" where
  "WTERMSIG (WSignaled n) = n"
| "WTERMSIG _ = 0"

text \<open>The \<^verbatim>\<open>%d\<close> conversion of \<^verbatim>\<open>printf\<close>.\<close>

fun digits :: "nat \<Rightarrow> string" where
  "digits n =
     (if n < 10 then [''0123456789'' ! n]
      else digits (n div 10) @ [''0123456789'' ! (n mod 10)])"

declare digits.simps [simp del]

definition show_int :: "int \<Rightarrow> string" where
  "show_int i = (if i < 0 then CHR ''-'' # digits (nat (- i)) else digits (nat i))"

subsection \<open>The environment of one loop iteration\<close>

datatype oflag = O_RDONLY | O_WRONLY_CREAT_TRUNC

text \<open>
  What the program cannot decide: the children that end before the iteration's
  reaping, the value \<^verbatim>\<open>fork\<close> returns in the parent, whether \<^verbatim>\<open>open\<close>, \<^verbatim>\<open>dup2\<close>,
  \<^verbatim>\<open>execvp\<close> and \<^verbatim>\<open>chdir\<close> succeed, the value of \<^verbatim>\<open>HOME\<close>, and how the launched
  program ends (\<open>None\<close>: it never does).
\<close>

record env =
  exits :: "(int \<times> wstatus) list"
  fork_pid :: int
  can_open :: "string \<Rightarrow> oflag \<Rightarrow> bool"
  dup2_ok :: bool
  exec_ok :: "string \<Rightarrow> bool"
  fate :: "wstatus option"
  HOME :: "string option"
  can_chdir :: "string \<Rightarrow> bool"

subsection \<open>The child branch of execCommand\<close>

datatype stream = Inherited | File string

text \<open>
  The state of the forked child that the claims are about: its dispositions for the
  interrupt and terminate signals, what its standard input and output refer to, what
  it wrote to standard error, and the \<^verbatim>\<open>open\<close> calls it made.
\<close>

record child =
  c_sigint :: disposition
  c_sigterm :: disposition
  c_fd0 :: stream
  c_fd1 :: stream
  c_stderr :: string
  c_opens :: "(string option \<times> oflag) list"

text \<open>
  How the child branch ends: \<^verbatim>\<open>exit(n)\<close>, a successful \<^verbatim>\<open>execvp\<close> of a program with
  its argument vector, or undefined behaviour (a null pointer given to \<^verbatim>\<open>%s\<close>).
\<close>

datatype child_end =
  ChildExit int child
| ChildExec string "string list" child
| ChildUndefined child

fun child_of :: "child_end \<Rightarrow> child" where
  "child_of (ChildExit n c) = c"
| "child_of (ChildExec name args c) = c"
| "child_of (ChildUndefined c) = c"

text \<open>\<^verbatim>\<open>argv[i]\<close> for the two indices the program reads.\<close>

definition arg :: "Command \<Rightarrow> nat \<Rightarrow> string option" where
  "arg cmd i = (if i < length (argv cmd) then argv cmd ! i else None)"

text \<open>The argument vector \<^verbatim>\<open>execvp\<close> sees: the entries before the first null pointer.\<close>

definition exec_args :: "Command \<Rightarrow> string list" where
  "exec_args cmd = map the (takeWhile (\<lambda>a. a \<noteq> None) (argv cmd))"

text \<open>\<^verbatim>\<open>open\<close>: a null path fails (\<^verbatim>\<open>EFAULT\<close>); otherwise the file system decides.\<close>

definition sys_open :: "env \<Rightarrow> string option \<Rightarrow> oflag \<Rightarrow> bool" where
  "sys_open e path fl = (case path of None \<Rightarrow> False | Some p \<Rightarrow> can_open e p fl)"

text \<open>
  Lines 254-273: the foreground child resets the interrupt disposition; the
  background child keeps it and gets the null device for a requested redirection
  without a path.
\<close>

definition childSetup :: "Command \<Rightarrow> child \<Rightarrow> Command \<times> child" where
  "childSetup cmd c =
     (if isBgProcess cmd = 0 then (cmd, c\<lparr>c_sigint := SIG_DFL\<rparr>)
      else
        (let cmd1 = (if inRedirFile cmd = None \<and> wantsInputR cmd = 1
                     then cmd\<lparr>inRedirFile := Some DEVNULL\<rparr> else cmd);
             cmd2 = (if outRedirFile cmd1 = None \<and> wantsOutputR cmd1 = 1
                     then cmd1\<lparr>outRedirFile := Some DEVNULL\<rparr> else cmd1)
         in (cmd2, c)))"

text \<open>Lines 276-299. \<open>Inl\<close>: the child has ended; \<open>Inr\<close>: it goes on.\<close>

definition redirectInput :: "env \<Rightarrow> Command \<Rightarrow> child \<Rightarrow> child_end + child" where
  "redirectInput e cmd c =
     (if wantsInputR cmd = 1 then
        (let c1 = c\<lparr>c_opens := c_opens c @ [(inRedirFile cmd, O_RDONLY)]\<rparr> in
         if \<not> sys_open e (inRedirFile cmd) O_RDONLY then
           (case inRedirFile cmd of
              None \<Rightarrow> Inl (ChildUndefined c1)
            | Some path \<Rightarrow>
                Inl (ChildExit 1
                  (c1\<lparr>c_stderr := c_stderr c1 @ ''cannot open '' @ path @ '' for input\<newline>''\<rparr>)))
         else if \<not> dup2_ok e then
           Inl (ChildExit 1 (c1\<lparr>c_stderr := c_stderr c1 @ ''dup2 error''\<rparr>))
         else
           (case inRedirFile cmd of
              None \<Rightarrow> Inl (ChildUndefined c1)
            | Some path \<Rightarrow> Inr (c1\<lparr>c_fd0 := File path\<rparr>)))
      else Inr c)"

text \<open>Lines 302-321.\<close>

definition redirectOutput :: "env \<Rightarrow> Command \<Rightarrow> child \<Rightarrow> child_end + child" where
  "redirectOutput e cmd c =
     (if wantsOutputR cmd = 1 then
        (let c1 = c\<lparr>c_opens := c_opens c @ [(outRedirFile cmd, O_WRONLY_CREAT_TRUNC)]\<rparr> in
         if \<not> sys_open e (outRedirFile cmd) O_WRONLY_CREAT_TRUNC then
           (case outRedirFile cmd of
              None \<Rightarrow> Inl (ChildUndefined c1)
            | Some path \<Rightarrow>
                Inl (ChildExit 1
                  (c1\<lparr>c_stderr := c_stderr c1 @ ''cannot open '' @ path @ '' for output\<newline>''\<rparr>)))
         else if \<not> dup2_ok e then
           Inl (ChildExit 1 (c1\<lparr>c_stderr := c_stderr c1 @ ''dup2 error''\<rparr>))
         else
           (case outRedirFile cmd of
              None \<Rightarrow> Inl (ChildUndefined c1)
            | Some path \<Rightarrow> Inr (c1\<lparr>c_fd1 := File path\<rparr>)))
      else Inr c)"

text \<open>Lines 324-328.\<close>

definition childExec :: "env \<Rightarrow> Command \<Rightarrow> child \<Rightarrow> child_end" where
  "childExec e cmd c =
     (case arg cmd 0 of
        None \<Rightarrow> ChildUndefined c
      | Some name \<Rightarrow>
          if exec_ok e name then ChildExec name (exec_args cmd) c
          else ChildExit 1 (c\<lparr>c_stderr := c_stderr c @ name @ '': no such file or directory\<newline>''\<rparr>))"

text \<open>The whole \<^verbatim>\<open>pid == 0\<close> branch (lines 249-329).\<close>

definition childBranch :: "env \<Rightarrow> Command \<Rightarrow> child \<Rightarrow> child_end" where
  "childBranch e cmd0 c0 =
     (case childSetup cmd0 c0 of (cmd, c1) \<Rightarrow>
        (case redirectInput e cmd c1 of
           Inl ended \<Rightarrow> ended
         | Inr c2 \<Rightarrow>
             (case redirectOutput e cmd c2 of
                Inl ended \<Rightarrow> ended
              | Inr c3 \<Rightarrow> childExec e cmd c3)))"

subsection \<open>The shell process and its children\<close>

text \<open>
  A child the shell has forked and not yet waited for: its pid, its process state when
  the child branch ended, and its wait status once it has terminated (\<open>None\<close> while it
  runs).
\<close>

record job =
  j_pid :: int
  j_proc :: child
  j_status :: "wstatus option"

text \<open>\<^verbatim>\<open>waitpid(pid, &status, 0)\<close> and \<^verbatim>\<open>waitpid(pid, &status, WNOHANG)\<close>, as logged.\<close>

datatype wait_call = Blocking int | NoHang int

text \<open>
  The state of the shell process: the global \<^verbatim>\<open>ENDSTATE\<close>, its dispositions for the
  interrupt and terminate signals, the input still pending on standard input, what it
  has written to standard output and standard error, the directory of its last
  successful \<^verbatim>\<open>chdir\<close>, its children, and the \<^verbatim>\<open>waitpid\<close> calls it has made.
\<close>

record shell =
  ENDSTATE :: string
  sigint :: disposition
  sigterm :: disposition
  stdin :: string
  stdout :: string
  stderr :: string
  cwd :: "string option"
  jobs :: "job list"
  waits :: "wait_call list"

text \<open>The children named by the environment end, with the status it gives.\<close>

definition job_ends :: "(int \<times> wstatus) list \<Rightarrow> job \<Rightarrow> job" where
  "job_ends xs j =
     (if j_status j = None then
        (case map_of xs (j_pid j) of None \<Rightarrow> j | Some st \<Rightarrow> j\<lparr>j_status := Some st\<rparr>)
      else j)"

text \<open>
  \<^verbatim>\<open>kill(0, SIGTERM)\<close> reaches every process of the caller's process group. The
  children stay in the group of the shell (the program never changes a process group)
  and keep the disposition they inherited; a running child is terminated unless it
  ignores the signal.
\<close>

definition job_sigterm :: "job \<Rightarrow> job" where
  "job_sigterm j =
     (if j_status j = None then j\<lparr>j_status := deliver SIGTERM (c_sigterm (j_proc j))\<rparr> else j)"

subsection \<open>The reaper: cleanUp\<close>

text \<open>
  The first terminated child, if any, with its status and the children left.
\<close>

fun reap :: "job list \<Rightarrow> (int \<times> wstatus \<times> job list) option" where
  "reap [] = None"
| "reap (j # js) =
     (case j_status j of
        Some st \<Rightarrow> Some (j_pid j, st, js)
      | None \<Rightarrow>
         (case reap js of None \<Rightarrow> None | Some (p, st, js') \<Rightarrow> Some (p, st, j # js')))"

text \<open>
  \<^verbatim>\<open>waitpid(-1, &status, WNOHANG)\<close>: the pid and status of a terminated child, which
  is removed; or 0 when children exist but none has terminated, -1 when there is no
  child (the status is then not written).
\<close>

definition waitpid_nohang :: "shell \<Rightarrow> int \<times> wstatus \<times> shell" where
  "waitpid_nohang s =
     (let s1 = s\<lparr>waits := waits s @ [NoHang (- 1)]\<rparr> in
      case reap (jobs s) of
        None \<Rightarrow> (if jobs s = [] then - 1 else 0, WOther, s1)
      | Some (p, st, js) \<Rightarrow> (p, st, s1\<lparr>jobs := js\<rparr>))"

lemma reap_length: "reap js = Some (p, st, js') \<Longrightarrow> length js' < length js"
  by (induction js arbitrary: js') (auto split: option.splits)

text \<open>The loop of \<^verbatim>\<open>cleanUp\<close> (lines 386-397).\<close>

function cleanUp :: "shell \<Rightarrow> shell" where
  "cleanUp s =
     (case waitpid_nohang s of (childPid, status, s1) \<Rightarrow>
        if childPid > 0 then
          cleanUp
            (if WIFEXITED status then
               s1\<lparr>stdout := stdout s1 @ ''background pid '' @ show_int childPid
                       @ '' is done: exit value '' @ show_int (int (WEXITSTATUS status))
                       @ ''\<newline>''\<rparr>
             else if WIFSIGNALED status then
               s1\<lparr>stdout := stdout s1 @ ''background pid '' @ show_int childPid
                       @ '' is done: terminated by signal '' @ show_int (int (WTERMSIG status))
                       @ ''\<newline>''\<rparr>
             else s1)
        else s1)"
  by pat_completeness auto
termination
proof (relation "measure (\<lambda>s. length (jobs s))")
  fix s :: shell and childPid :: int and status :: wstatus and s1 s2 :: shell and x y
  assume a: "(childPid, x) = waitpid_nohang s" "(status, s1) = x" "0 < childPid"
  then have "length (jobs s1) < length (jobs s)"
    by (auto simp: waitpid_nohang_def Let_def split: option.splits if_splits dest: reap_length)
  then show "(if WIFEXITED status then
        s1\<lparr>stdout := stdout s1 @ ''background pid '' @ show_int childPid
                @ '' is done: exit value '' @ show_int (int (WEXITSTATUS status))
                @ ''\<newline>''\<rparr>
      else if WIFSIGNALED status then
        s1\<lparr>stdout := stdout s1 @ ''background pid '' @ show_int childPid
                @ '' is done: terminated by signal '' @ show_int (int (WTERMSIG status))
                @ ''\<newline>''\<rparr>
      else s1, s) \<in> measure (\<lambda>s. length (jobs s))"
    by simp
qed simp

declare cleanUp.simps [simp del]

subsection \<open>The dispatcher and launcher: execCommand\<close>

text \<open>
  How a call of \<^verbatim>\<open>execCommand\<close> ends in the shell process: it returns a value; the
  process leaves through \<^verbatim>\<open>exit\<close>; it is terminated by a signal; or it stays blocked
  in \<^verbatim>\<open>waitpid\<close> for ever.
\<close>

datatype result = Return int shell | Exit int shell | Killed nat shell | Blocked shell

text \<open>The child right after \<^verbatim>\<open>fork\<close>: a copy of the shell's dispositions and streams.\<close>

definition fork_child :: "shell \<Rightarrow> child" where
  "fork_child s =
     \<lparr>c_sigint = sigint s, c_sigterm = sigterm s, c_fd0 = Inherited, c_fd1 = Inherited,
      c_stderr = [], c_opens = []\<rparr>"

text \<open>
  The status a wait for the child yields: that of its own \<^verbatim>\<open>exit\<close>, or else what the
  environment says of the launched program.
\<close>

definition wait_status :: "env \<Rightarrow> child_end \<Rightarrow> wstatus option" where
  "wait_status e ce =
     (case ce of
        ChildExit n c \<Rightarrow> Some (WExited (nat n))
      | ChildExec name args c \<Rightarrow> fate e
      | ChildUndefined c \<Rightarrow> fate e)"

text \<open>The \<^verbatim>\<open>cd\<close> built-in (lines 217-240).\<close>

definition builtin_cd :: "env \<Rightarrow> Command \<Rightarrow> shell \<Rightarrow> result" where
  "builtin_cd e cmd s =
     (let directory = (if arg cmd 1 = None then HOME e else arg cmd 1);
          s1 = s\<lparr>ENDSTATE := ''exit value 0''\<rparr>
      in if (case directory of None \<Rightarrow> False | Some d \<Rightarrow> can_chdir e d)
         then Return 0 (s1\<lparr>cwd := directory\<rparr>)
         else Return 0 (s1\<lparr>stderr := stderr s1 @ ''no such file or directory\<newline>'',
                           ENDSTATE := ''exit value 1''\<rparr>))"

text \<open>
  The \<^verbatim>\<open>pid > 0\<close> branch (lines 331-362), given how the child branch ended. The
  foreground child is waited for and so never enters the list of children. What a
  child does to the input it shares with the shell (reading it, or moving the offset of
  a seekable file when it exits) is not followed: the pending input of the shell is a
  matter of the shell's own reads only.
\<close>

definition parentBranch :: "env \<Rightarrow> Command \<Rightarrow> int \<Rightarrow> child_end \<Rightarrow> shell \<Rightarrow> result" where
  "parentBranch e cmd pid ce s =
     (if isBgProcess cmd = 0 then
        (let s1 = s\<lparr>waits := waits s @ [Blocking pid]\<rparr> in
         case wait_status e ce of
           None \<Rightarrow> Blocked s1
         | Some status \<Rightarrow>
             if WIFEXITED status then
               Return 0 (s1\<lparr>ENDSTATE := ''exit value '' @ show_int (int (WEXITSTATUS status))\<rparr>)
             else if WIFSIGNALED status then
               (let s2 = s1\<lparr>ENDSTATE :=
                              ''terminated by signal '' @ show_int (int (WTERMSIG status))\<rparr>
                in Return 0 (s2\<lparr>stdout := stdout s2 @ ENDSTATE s2 @ ''\<newline>''\<rparr>))
             else Return 0 s1)
      else
        Return 0
          (s\<lparr>stdout := stdout s @ ''background pid is '' @ show_int pid @ ''\<newline>'',
             jobs := jobs s @
               [\<lparr>j_pid = pid, j_proc = child_of ce,
                 j_status = (case ce of ChildExit n c \<Rightarrow> Some (WExited (nat n)) | _ \<Rightarrow> None)\<rparr>]\<rparr>))"

text \<open>
  The fork and its three outcomes (lines 246-368). In the parent \<^verbatim>\<open>fork\<close> returns the
  child's pid or a negative value; the child branch runs in the new process.
\<close>

definition launch :: "env \<Rightarrow> Command \<Rightarrow> shell \<Rightarrow> result" where
  "launch e cmd s =
     (let pid = fork_pid e in
      if pid > 0 then parentBranch e cmd pid (childBranch e cmd (fork_child s)) s
      else Exit 1 (s\<lparr>stderr := stderr s @ ''fork error''\<rparr>))"

text \<open>
  The \<^verbatim>\<open>exit\<close> built-in (lines 202-207). The shell is itself in the process group it
  signals: with the default disposition it is terminated inside \<^verbatim>\<open>kill\<close>, and only a
  shell that ignores the signal reaches \<^verbatim>\<open>return 1\<close>.
\<close>

definition builtin_exit :: "shell \<Rightarrow> result" where
  "builtin_exit s =
     (let s1 = s\<lparr>jobs := map job_sigterm (jobs s)\<rparr> in
      case deliver SIGTERM (sigterm s) of
        Some st \<Rightarrow> Killed (WTERMSIG st) s1
      | None \<Rightarrow> Return 1 s1)"

text \<open>\<^verbatim>\<open>execCommand\<close> (lines 184-373).\<close>

definition execCommand :: "env \<Rightarrow> Command \<Rightarrow> shell \<Rightarrow> result" where
  "execCommand e cmd s =
     (case arg cmd 0 of
        None \<Rightarrow> Return 0 s
      | Some name \<Rightarrow>
          if argc cmd = 0 then Return 0 s
          else if take 1 name = ''#'' then Return 0 s
          else if name = ''exit'' then builtin_exit s
          else if name = ''status'' then
            Return 0 (s\<lparr>stdout := stdout s @ ENDSTATE s @ ''\<newline>'',
                        ENDSTATE := ''exit value 0''\<rparr>)
          else if name = ''cd'' then builtin_cd e cmd s
          else launch e cmd s)"

subsection \<open>The interpreter loop: main\<close>

text \<open>
  \<^verbatim>\<open>getCommand\<close> in the shell: the prompt, \<^verbatim>\<open>fgets\<close> on the pending input, the parse.
  The \<^verbatim>\<open>fflush(stdin)\<close> before the read is taken to leave the pending input in place.
\<close>

definition getCommand :: "shell \<Rightarrow> error + Command \<times> shell" where
  "getCommand s =
     (let s1 = s\<lparr>stdout := stdout s @ '': ''\<rparr> in
      case fgets MAX_CMD_CHARS (stdin s1) of (line, pending) \<Rightarrow>
        (case parseLine line of
           Inl err \<Rightarrow> Inl err
         | Inr cmd \<Rightarrow> Inr (cmd, s1\<lparr>stdin := pending\<rparr>)))"

text \<open>
  How a run of the shell stands after the iterations supplied: still in its loop,
  returned from \<^verbatim>\<open>main\<close> or left through \<^verbatim>\<open>exit\<close> with a code, terminated by a
  signal, blocked for ever, or in undefined behaviour.
\<close>

datatype outcome =
  Running shell
| Exited int shell
| Signaled nat shell
| Hung shell
| Undefined error

text \<open>
  The body of the \<^verbatim>\<open>do ... while\<close> loop of \<^verbatim>\<open>main\<close> (lines 71-74): the children
  the environment names have ended, then \<^verbatim>\<open>cleanUp\<close>, \<^verbatim>\<open>getCommand\<close> and
  \<^verbatim>\<open>execCommand\<close>.
\<close>

definition reaped :: "env \<Rightarrow> shell \<Rightarrow> shell" where
  "reaped e s = cleanUp (s\<lparr>jobs := map (job_ends (exits e)) (jobs s)\<rparr>)"

definition iteration :: "env \<Rightarrow> shell \<Rightarrow> error + result" where
  "iteration e s =
     (case getCommand (reaped e s) of
        Inl err \<Rightarrow> Inl err
      | Inr (cmd, s1) \<Rightarrow> Inr (execCommand e cmd s1))"

text \<open>
  The loop itself (lines 69-77), one environment for each iteration. The loop may run
  for ever; the run is followed for the iterations given.
\<close>

fun mainLoop :: "env list \<Rightarrow> shell \<Rightarrow> outcome" where
  "mainLoop [] s = Running s"
| "mainLoop (e # es) s =
     (case iteration e s of
        Inl err \<Rightarrow> Undefined err
      | Inr (Return exitCalled s2) \<Rightarrow> if exitCalled = 0 then mainLoop es s2 else Exited 0 s2
      | Inr (Exit n s2) \<Rightarrow> Exited n s2
      | Inr (Killed sig s2) \<Rightarrow> Signaled sig s2
      | Inr (Blocked s2) \<Rightarrow> Hung s2)"

text \<open>
  The shell at the start of \<^verbatim>\<open>main\<close>, after \<^verbatim>\<open>sigaction(SIGINT, ...)\<close> with
  \<^verbatim>\<open>SIG_IGN\<close> (lines 64-67): \<^verbatim>\<open>ENDSTATE\<close> holds its initialiser, the disposition of
  the terminate signal is the inherited one.
\<close>

definition startup :: "disposition \<Rightarrow> string \<Rightarrow> shell" where
  "startup inherited_sigterm input =
     \<lparr>ENDSTATE = ''NULL'', sigint = SIG_IGN, sigterm = inherited_sigterm, stdin = input,
      stdout = [], stderr = [], cwd = None, jobs = [], waits = []\<rparr>"

definition main :: "disposition \<Rightarrow> string \<Rightarrow> env list \<Rightarrow> outcome" where
  "main inherited_sigterm input es = mainLoop es (startup inherited_sigterm input)"

text \<open>The shell state a result or an outcome carries.\<close>

fun result_shell :: "result \<Rightarrow> shell" where
  "result_shell (Return n s) = s"
| "result_shell (Exit n s) = s"
| "result_shell (Killed sig s) = s"
| "result_shell (Blocked s) = s"

fun outcome_shell :: "outcome \<Rightarrow> shell option" where
  "outcome_shell (Running s) = Some s"
| "outcome_shell (Exited n s) = Some s"
| "outcome_shell (Signaled sig s) = Some s"
| "outcome_shell (Hung s) = Some s"
| "outcome_shell (Undefined err) = None"

text \<open>The line \<^verbatim>\<open>cleanUp\<close> prints for a terminated child (lines 389-396).\<close>

definition report :: "job \<Rightarrow> string" where
  "report j =
     (case j_status j of
        Some (WExited n) \<Rightarrow>
          ''background pid '' @ show_int (j_pid j) @ '' is done: exit value ''
            @ show_int (int n) @ ''\<newline>''
      | Some (WSignaled n) \<Rightarrow>
          ''background pid '' @ show_int (j_pid j) @ '' is done: terminated by signal ''
            @ show_int (int n) @ ''\<newline>''
      | _ \<Rightarrow> [])"

subsection \<open>A sample environment\<close>

text \<open>
  An environment for concrete runs: no child ends, \<^verbatim>\<open>fork\<close> returns 100, only the
  null device opens, the programs \<^verbatim>\<open>ls\<close> and \<^verbatim>\<open>sleep\<close> exist and end with code 0.
\<close>

definition sample_env :: env where
  "sample_env =
     \<lparr>exits = [], fork_pid = 100, can_open = (\<lambda>path fl. path = ''/dev/null''), dup2_ok = True,
      exec_ok = (\<lambda>name. name = ''ls'' \<or> name = ''sleep''), fate = Some (WExited 0),
      HOME = Some ''/root'', can_chdir = (\<lambda>d. d = ''/root'')\<rparr>"

text \<open>The descriptor of a line the parser completes on, for concrete runs.\<close>

definition cmd_of :: "string \<Rightarrow> Command" where
  "cmd_of line = (case parseLine line of Inr cmd \<Rightarrow> cmd | Inl err \<Rightarrow> initCommand)"

subsection \<open>The commands of a run\<close>

text \<open>
  The commands the loop reads and executes in the iterations given, in order.
\<close>

fun commands :: "env list \<Rightarrow> shell \<Rightarrow> Command list" where
  "commands [] s = []"
| "commands (e # es) s =
     (case getCommand (reaped e s) of
        Inl err \<Rightarrow> []
      | Inr (cmd, s1) \<Rightarrow>
          cmd # (case execCommand e cmd s1 of
                   Return exitCalled s2 \<Rightarrow> if exitCalled = 0 then commands es s2 else []
                 | _ \<Rightarrow> []))"

text \<open>
  The commands whose branch of \<^verbatim>\<open>execCommand\<close> writes \<^verbatim>\<open>ENDSTATE\<close>: \<^verbatim>\<open>status\<close>, \<^verbatim>\<open>cd\<close> and
  the foreground launch of an external command. Blank lines, comments, \<^verbatim>\<open>exit\<close> and
  background launches are the others.
\<close>

definition writes_record :: "Command \<Rightarrow> bool" where
  "writes_record cmd =
     (case arg cmd 0 of
        None \<Rightarrow> False
      | Some name \<Rightarrow>
          argc cmd \<noteq> 0 \<and> take 1 name \<noteq> ''#'' \<and> name \<noteq> ''exit'' \<and>
          (name = ''status'' \<or> name = ''cd'' \<or> isBgProcess cmd = 0))"

text \<open>
  The invariant of the loop: the shell and every child it has not yet waited for ignore
  the interrupt signal, and the pids of these children are positive.
\<close>

definition policy :: "shell \<Rightarrow> bool" where
  "policy s =
     (sigint s = SIG_IGN \<and> (\<forall>j\<in>set (jobs s). c_sigint (j_proc j) = SIG_IGN \<and> 0 < j_pid j))"

section \<open>Properties of the parser\<close>

lemma tokens_strtok: "strtok s = (t, r) \<Longrightarrow> tokens s = ahead t r"
  by (subst tokens.simps) (simp add: ahead_def split: option.splits)

lemma strdup_Inr: "strdup t = Inr p \<Longrightarrow> t = p \<and> (\<exists>x. t = Some x)"
  by (auto simp: strdup_def split: option.splits)

lemma unredirected_Cons:
  "unredirected (t # ts) =
     (if t = ''<'' \<or> t = ''>'' then unredirected (drop 1 ts) else t # unredirected ts)"
  by (cases ts) auto

lemmas parse_eval =
  parseLine_def c_str_def strtok_def is_delim_def DELIM_def parseLoop.simps strdup_def
  initCommand_def MAX_CMD_ARGS_def

text \<open>
  What a completed run of the loop has done to the descriptor: the background flag is
  set exactly when it was set before or an \<^verbatim>\<open>&\<close> is met outside a redirection; no \<^verbatim>\<open>&\<close>
  enters the argument array; a requested redirection has a path.
\<close>

lemma parseLoop_props:
  "parseLoop t rest cmd = Inr cmd' \<Longrightarrow>
     ((isBgProcess cmd' = 1) = (isBgProcess cmd = 1 \<or> ''&'' \<in> set (unredirected (ahead t rest)))) \<and>
     (Some ''&'' \<notin> set (argv cmd) \<longrightarrow> Some ''&'' \<notin> set (argv cmd')) \<and>
     ((wantsInputR cmd = 1 \<longrightarrow> inRedirFile cmd \<noteq> None) \<longrightarrow>
        (wantsInputR cmd' = 1 \<longrightarrow> inRedirFile cmd' \<noteq> None)) \<and>
     ((wantsOutputR cmd = 1 \<longrightarrow> outRedirFile cmd \<noteq> None) \<longrightarrow>
        (wantsOutputR cmd' = 1 \<longrightarrow> outRedirFile cmd' \<noteq> None))"
proof (induction t rest cmd rule: parseLoop.induct)
  case (1 rest cmd)
  then show ?case by (simp add: ahead_def)
next
  case (2 token rest cmd)
  obtain t1 r1 where s1: "strtok rest = (t1, r1)" by (cases "strtok rest")
  obtain t2 r2 where s2: "strtok r1 = (t2, r2)" by (cases "strtok r1")
  have a1: "ahead (Some token) rest = token # ahead t1 r1"
    using tokens_strtok [OF s1] by (simp add: ahead_def)
  show ?case
  proof (cases "token = ''<'' \<or> token = ''>''")
    case True
    from "2.prems" True s1 obtain p where p: "strdup t1 = Inr p"
      by (auto simp: parseLoop.simps split: sum.splits)
    then obtain x where x: "t1 = Some x" "p = Some x" using strdup_Inr by blast
    have a2: "ahead t1 r1 = x # ahead t2 r2"
      using tokens_strtok [OF s2] x by (simp add: ahead_def)
    from True show ?thesis
    proof
      assume i: "token = ''<''"
      with "2.prems" s1 s2 p
      have "parseLoop t2 r2 (cmd\<lparr>wantsInputR := 1, inRedirFile := p\<rparr>) = Inr cmd'"
        by (simp add: parseLoop.simps)
      from "2.IH"(1) [OF i s1 [symmetric] p s2 [symmetric] this]
      show ?thesis using x a1 a2 i by simp
    next
      assume o: "token = ''>''"
      then have ni: "token \<noteq> ''<''" by simp
      from o "2.prems" s1 s2 p
      have "parseLoop t2 r2 (cmd\<lparr>wantsOutputR := 1, outRedirFile := p\<rparr>) = Inr cmd'"
        by (simp add: parseLoop.simps)
      from "2.IH"(2) [OF ni o s1 [symmetric] p s2 [symmetric] this]
      show ?thesis using x a1 a2 o by simp
    qed
  next
    case False
    then have ni: "token \<noteq> ''<''" and no: "token \<noteq> ''>''" by simp_all
    show ?thesis
    proof (cases "token = ''&''")
      case True
      with "2.prems" s1 have "parseLoop t1 r1 (cmd\<lparr>isBgProcess := 1\<rparr>) = Inr cmd'"
        by (simp add: parseLoop.simps)
      from "2.IH"(3) [OF ni no True s1 [symmetric] this]
      show ?thesis using a1 True by (simp add: unredirected_Cons)
    next
      case na: False
      from "2.prems" ni no na have ok: "\<not> (argc cmd < 0 \<or> int MAX_CMD_ARGS \<le> argc cmd)"
        by (auto simp: parseLoop.simps split: if_splits)
      with "2.prems" ni no na s1
      have "parseLoop t1 r1
          (cmd\<lparr>argv := (argv cmd)[nat (argc cmd) := Some token], argc := argc cmd + 1\<rparr>) = Inr cmd'"
        by (simp add: parseLoop.simps)
      from "2.IH"(4) [OF ni no na ok s1 [symmetric] this]
      show ?thesis using ni no na set_update_subset_insert [of "argv cmd" "nat (argc cmd)" "Some token"]
          a1 by (auto simp add: unredirected_Cons)
    qed
  qed
qed

lemma parseLine_props:
  assumes "parseLine line = Inr cmd"
  shows "(isBgProcess cmd = 1) = (''&'' \<in> set (unredirected (tokens (c_str line))))"
    and "Some ''&'' \<notin> set (argv cmd)"
    and "wantsInputR cmd = 1 \<longrightarrow> inRedirFile cmd \<noteq> None"
    and "wantsOutputR cmd = 1 \<longrightarrow> outRedirFile cmd \<noteq> None"
proof -
  obtain t r where tr: "strtok (c_str line) = (t, r)" by (cases "strtok (c_str line)")
  from assms tr obtain c where c: "parseLoop t r initCommand = Inr c"
    and ok: "\<not> (argc c < 0 \<or> int MAX_CMD_ARGS \<le> argc c)"
    and cmd: "cmd = c\<lparr>argv := (argv c)[nat (argc c) := None]\<rparr>"
    by (auto simp: parseLine_def split: sum.splits if_splits)
  have init: "isBgProcess initCommand \<noteq> 1" "Some ''&'' \<notin> set (argv initCommand)"
    "wantsInputR initCommand \<noteq> 1" "wantsOutputR initCommand \<noteq> 1"
    by (simp_all add: initCommand_def)
  note p = parseLoop_props [OF c]
  show "(isBgProcess cmd = 1) = (''&'' \<in> set (unredirected (tokens (c_str line))))"
    using p init tokens_strtok [OF tr] by (simp add: cmd)
  have "Some ''&'' \<notin> set (argv c)" using p init by simp
  then show "Some ''&'' \<notin> set (argv cmd)"
    using set_update_subset_insert [of "argv c" "nat (argc c)" None] by (auto simp: cmd)
  show "wantsInputR cmd = 1 \<longrightarrow> inRedirFile cmd \<noteq> None"
    using p init by (simp add: cmd)
  show "wantsOutputR cmd = 1 \<longrightarrow> outRedirFile cmd \<noteq> None"
    using p init by (simp add: cmd)
qed

text \<open>
  Claim C8, as the code has it. On every line the parser completes on, \<^verbatim>\<open>isBgProcess\<close>
  is 1 exactly when some token \<^verbatim>\<open>&\<close> of the line is not the token consumed as the path
  of a preceding \<^verbatim>\<open><\<close> or \<^verbatim>\<open>>\<close>, wherever in the line it stands; and no \<^verbatim>\<open>&\<close> token is
  stored in the argument array.
\<close>

theorem getCommand_background_marker:
  "parseLine line = Inr cmd \<Longrightarrow>
     (isBgProcess cmd = 1) = (''&'' \<in> set (unredirected (tokens (c_str line)))) \<and>
     Some ''&'' \<notin> set (argv cmd)"
  using parseLine_props(1,2) by blast

text \<open>
  The line \<^verbatim>\<open>sleep 5 &\<close> is parsed, its flag is set and its argument array holds no
  \<^verbatim>\<open>&\<close>.
\<close>

theorem getCommand_background_marker_witness:
  "\<exists>cmd. parseLine ''sleep 5 &\<newline>'' = Inr cmd \<and> isBgProcess cmd = 1 \<and>
     ''&'' \<in> set (unredirected (tokens (c_str ''sleep 5 &\<newline>''))) \<and>
     Some ''&'' \<notin> set (argv cmd)"
proof -
  obtain cmd where h: "parseLine ''sleep 5 &\<newline>'' = Inr cmd"
    by (simp add: parse_eval)
  have "''&'' \<in> set (unredirected (tokens (c_str ''sleep 5 &\<newline>'')))"
    by (simp add: tokens.simps c_str_def strtok_def is_delim_def DELIM_def)
  with getCommand_background_marker [OF h] h show ?thesis by blast
qed

text \<open>
  Claim C8 as stated fails: on the line \<^verbatim>\<open>sleep & 5\<close> the parser sets \<^verbatim>\<open>isBgProcess\<close>
  to 1 although the last token of the line is \<^verbatim>\<open>5\<close>; on the line \<^verbatim>\<open>cat > &\<close> it
  leaves \<^verbatim>\<open>isBgProcess\<close> at 0 although the last token is \<^verbatim>\<open>&\<close>, which it takes as the
  output path.
\<close>

theorem background_marker_last_token_counterexample:
  "map_sum id isBgProcess (parseLine ''sleep & 5\<newline>'') = Inr 1 \<and>
   last (tokens (c_str ''sleep & 5\<newline>'')) = ''5'' \<and>
   map_sum id isBgProcess (parseLine ''cat > &\<newline>'') = Inr 0 \<and>
   map_sum id outRedirFile (parseLine ''cat > &\<newline>'') = Inr (Some ''&'') \<and>
   last (tokens (c_str ''cat > &\<newline>'')) = ''&''"
  by (simp add: parse_eval tokens.simps)

text \<open>
  Claim C9 at the line \<^verbatim>\<open>cat <\<close>, a redirection marker with no token after it:
  \<^verbatim>\<open>strtok\<close> returns the null pointer, which line 145 hands to \<^verbatim>\<open>strdup\<close>. The parse
  does not complete with a null path stored; it ends in undefined behaviour.
\<close>

theorem getCommand_marker_without_path:
  "parseLine ''cat <\<newline>'' = Inl NullPointer"
  by (simp add: parse_eval)

section \<open>Properties of the reaper\<close>

lemma reap_None: "(reap js = None) = (filter (\<lambda>j. j_status j \<noteq> None) js = [])"
  by (induction js) (auto split: option.splits simp del: not_None_eq)

lemma reap_Some:
  "reap js = Some (p, st, js') \<Longrightarrow>
     \<exists>j. j \<in> set js \<and> j_pid j = p \<and> j_status j = Some st \<and>
       filter (\<lambda>j. j_status j \<noteq> None) js = j # filter (\<lambda>j. j_status j \<noteq> None) js' \<and>
       filter (\<lambda>j. j_status j = None) js' = filter (\<lambda>j. j_status j = None) js \<and>
       set js' \<subseteq> set js"
proof (induction js arbitrary: js')
  case Nil
  then show ?case by simp
next
  case (Cons a js)
  show ?case
  proof (cases "j_status a")
    case None
    with Cons.prems obtain js1 where r: "reap js = Some (p, st, js1)" and js': "js' = a # js1"
      by (auto split: option.splits)
    from Cons.IH [OF r] None js' show ?thesis by auto
  next
    case (Some x)
    with Cons.prems show ?thesis by auto
  qed
qed

lemma report_simps:
  "j_status j = Some st \<Longrightarrow> report j =
     (if WIFEXITED st then ''background pid '' @ show_int (j_pid j) @ '' is done: exit value ''
            @ show_int (int (WEXITSTATUS st)) @ ''\<newline>''
      else if WIFSIGNALED st then ''background pid '' @ show_int (j_pid j) @ '' is done: terminated by signal ''
            @ show_int (int (WTERMSIG st)) @ ''\<newline>''
      else [])"
  by (cases st) (simp_all add: report_def)

lemma cleanUp_char:
  "\<forall>j\<in>set (jobs s). 0 < j_pid j \<Longrightarrow>
   cleanUp s = s\<lparr>jobs := filter (\<lambda>j. j_status j = None) (jobs s),
                 stdout := stdout s @ concat (map report (filter (\<lambda>j. j_status j \<noteq> None) (jobs s))),
                 waits := waits s @ replicate (Suc (length (filter (\<lambda>j. j_status j \<noteq> None) (jobs s)))) (NoHang (- 1))\<rparr>"
proof (induction s rule: cleanUp.induct)
  case (1 s)
  show ?case
  proof (cases "reap (jobs s)")
    case None
    then have f: "filter (\<lambda>j. j_status j \<noteq> None) (jobs s) = []" by (simp add: reap_None)
    then have g: "filter (\<lambda>j. j_status j = None) (jobs s) = jobs s"
      by (simp add: filter_empty_conv filter_id_conv)
    show ?thesis
      by (subst cleanUp.simps) (simp add: waitpid_nohang_def None f g del: not_None_eq)
  next
    case (Some a)
    obtain p st js where a: "a = (p, st, js)" by (cases a)
    from reap_Some [OF Some [unfolded a]] obtain j where j: "j \<in> set (jobs s)" "j_pid j = p"
      "j_status j = Some st"
      "filter (\<lambda>j. j_status j \<noteq> None) (jobs s) = j # filter (\<lambda>j. j_status j \<noteq> None) js"
      "filter (\<lambda>j. j_status j = None) js = filter (\<lambda>j. j_status j = None) (jobs s)"
      "set js \<subseteq> set (jobs s)" by blast
    from j "1.prems" have pos: "0 < p" by auto
    define s1 where "s1 = s\<lparr>waits := waits s @ [NoHang (- 1)], jobs := js\<rparr>"
    define s2 where "s2 = (if WIFEXITED st then
               s1\<lparr>stdout := stdout s1 @ ''background pid '' @ show_int p
                       @ '' is done: exit value '' @ show_int (int (WEXITSTATUS st))
                       @ ''\<newline>''\<rparr>
             else if WIFSIGNALED st then
               s1\<lparr>stdout := stdout s1 @ ''background pid '' @ show_int p
                       @ '' is done: terminated by signal '' @ show_int (int (WTERMSIG st))
                       @ ''\<newline>''\<rparr>
             else s1)"
    have w: "waitpid_nohang s = (p, st, s1)"
      by (simp add: waitpid_nohang_def Some a s1_def)
    have s2: "s2 = s1\<lparr>stdout := stdout s1 @ report j\<rparr>"
      by (simp add: s2_def report_simps [OF j(3)] j(2))
    have jobs2: "jobs s2 = js" by (simp add: s2 s1_def)
    have pos2: "\<forall>j\<in>set (jobs s2). 0 < j_pid j" using "1.prems" j(6) jobs2 by auto
    have "cleanUp s = cleanUp s2"
      by (subst cleanUp.simps) (simp add: w pos s2_def)
    also have "\<dots> = s2\<lparr>jobs := filter (\<lambda>j. j_status j = None) (jobs s2),
                 stdout := stdout s2 @ concat (map report (filter (\<lambda>j. j_status j \<noteq> None) (jobs s2))),
                 waits := waits s2 @ replicate (Suc (length (filter (\<lambda>j. j_status j \<noteq> None) (jobs s2)))) (NoHang (- 1))\<rparr>"
      using "1.IH" [OF w [symmetric] refl pos, folded s2_def, OF pos2] .
    also have "\<dots> = s\<lparr>jobs := filter (\<lambda>j. j_status j = None) (jobs s),
                 stdout := stdout s @ concat (map report (filter (\<lambda>j. j_status j \<noteq> None) (jobs s))),
                 waits := waits s @ replicate (Suc (length (filter (\<lambda>j. j_status j \<noteq> None) (jobs s)))) (NoHang (- 1))\<rparr>"
      by (simp add: s2 s1_def j(4,5) del: not_None_eq)
    finally show ?thesis .
  qed
qed

lemma reap_mem: "reap js = Some (p, st, js') \<Longrightarrow> x \<in> set js' \<Longrightarrow> x \<in> set js"
  using reap_Some by blast

lemma waitpid_nohang_frame:
  "waitpid_nohang s = (p, st, s1) \<Longrightarrow>
     ENDSTATE s1 = ENDSTATE s \<and> sigint s1 = sigint s \<and> sigterm s1 = sigterm s \<and>
     stdin s1 = stdin s \<and> stdout s1 = stdout s \<and> stderr s1 = stderr s \<and> cwd s1 = cwd s \<and>
     set (jobs s1) \<subseteq> set (jobs s) \<and> waits s1 = waits s @ [NoHang (- 1)]"
  by (auto simp: waitpid_nohang_def Let_def split: option.splits dest: reap_mem)

lemma cleanUp_frame:
  "ENDSTATE (cleanUp s) = ENDSTATE s \<and> sigint (cleanUp s) = sigint s \<and>
   sigterm (cleanUp s) = sigterm s \<and> stdin (cleanUp s) = stdin s \<and>
   stderr (cleanUp s) = stderr s \<and> cwd (cleanUp s) = cwd s \<and>
   set (jobs (cleanUp s)) \<subseteq> set (jobs s) \<and>
   (\<exists>out. stdout (cleanUp s) = stdout s @ out) \<and>
   (\<exists>n. waits (cleanUp s) = waits s @ replicate (Suc n) (NoHang (- 1)))"
proof (induction s rule: cleanUp.induct)
  case (1 s)
  obtain p st s1 where w: "waitpid_nohang s = (p, st, s1)" by (cases "waitpid_nohang s")
  note f = waitpid_nohang_frame [OF w]
  show ?case
  proof (cases "0 < p")
    case False
    then have "cleanUp s = s1" by (subst cleanUp.simps) (simp add: w)
    with f show ?thesis by (auto intro: exI [of _ 0])
  next
    case True
    define s2 where "s2 = (if WIFEXITED st then
               s1\<lparr>stdout := stdout s1 @ ''background pid '' @ show_int p
                       @ '' is done: exit value '' @ show_int (int (WEXITSTATUS st))
                       @ ''\<newline>''\<rparr>
             else if WIFSIGNALED st then
               s1\<lparr>stdout := stdout s1 @ ''background pid '' @ show_int p
                       @ '' is done: terminated by signal '' @ show_int (int (WTERMSIG st))
                       @ ''\<newline>''\<rparr>
             else s1)"
    have c: "cleanUp s = cleanUp s2"
      by (subst cleanUp.simps) (simp add: w True s2_def)
    have f2: "ENDSTATE s2 = ENDSTATE s" "sigint s2 = sigint s" "sigterm s2 = sigterm s"
      "stdin s2 = stdin s" "stderr s2 = stderr s" "cwd s2 = cwd s" "jobs s2 = jobs s1"
      "waits s2 = waits s @ [NoHang (- 1)]" "\<exists>out. stdout s2 = stdout s @ out"
      using f by (auto simp: s2_def)
    note ih = "1.IH" [OF w [symmetric] refl True, folded s2_def]
    from ih obtain out n where o: "stdout (cleanUp s2) = stdout s2 @ out"
      "waits (cleanUp s2) = waits s2 @ replicate (Suc n) (NoHang (- 1))" by blast
    from f2(9) obtain out0 where o0: "stdout s2 = stdout s @ out0" by blast
    have "waits (cleanUp s) = waits s @ replicate (Suc (Suc n)) (NoHang (- 1))"
      using o(2) f2(8) c by simp
    moreover have "stdout (cleanUp s) = stdout s @ (out0 @ out)" using o(1) o0 c by simp
    moreover have "set (jobs (cleanUp s)) \<subseteq> set (jobs s)" using ih f2(7) f c by auto
    ultimately show ?thesis using ih f2 c by (metis (no_types))
  qed
qed

section \<open>The status built-in\<close>

lemma fgets_line:
  "CHR 0x0A \<notin> set l \<Longrightarrow> length l + 1 < n \<Longrightarrow> fgets n (l @ CHR 0x0A # rest) = (l @ [CHR 0x0A], rest)"
  by (induction l arbitrary: n) auto

lemma getCommand_status:
  assumes "stdin s = ''status\<newline>'' @ rest"
  shows "\<exists>cmd. getCommand s = Inr (cmd, s\<lparr>stdout := stdout s @ '': '', stdin := rest\<rparr>) \<and>
     arg cmd 0 = Some ''status'' \<and> argc cmd = 1"
  using assms by (simp add: getCommand_def MAX_CMD_CHARS_def parse_eval arg_def)

lemma execCommand_status:
  "arg cmd 0 = Some ''status'' \<Longrightarrow> argc cmd \<noteq> 0 \<Longrightarrow>
     execCommand e cmd s =
       Return 0 (s\<lparr>stdout := stdout s @ ENDSTATE s @ ''\<newline>'', ENDSTATE := ''exit value 0''\<rparr>)"
  by (simp add: execCommand_def)

lemma reaped_frame:
  "ENDSTATE (reaped e s) = ENDSTATE s" "sigint (reaped e s) = sigint s"
  "sigterm (reaped e s) = sigterm s" "stdin (reaped e s) = stdin s"
  using cleanUp_frame [of "s\<lparr>jobs := map (job_ends (exits e)) (jobs s)\<rparr>"]
  by (simp_all add: reaped_def)

lemma iteration_status:
  assumes "stdin s = ''status\<newline>'' @ rest"
  shows "iteration e s =
     Inr (Return 0 ((reaped e s)\<lparr>stdout := stdout (reaped e s) @ '': '' @ ENDSTATE s @ ''\<newline>'',
        stdin := rest, ENDSTATE := ''exit value 0''\<rparr>))"
proof -
  have "stdin (reaped e s) = ''status\<newline>'' @ rest" using assms by (simp add: reaped_frame)
  from getCommand_status [OF this] obtain cmd where
    g: "getCommand (reaped e s) =
          Inr (cmd, (reaped e s)\<lparr>stdout := stdout (reaped e s) @ '': '', stdin := rest\<rparr>)"
    and c: "arg cmd 0 = Some ''status''" "argc cmd = 1" by blast
  show ?thesis
    using execCommand_status [of cmd e] c
    by (simp add: iteration_def g reaped_frame)
qed

lemma reaped_no_jobs: "jobs s = [] \<Longrightarrow> reaped e s = s\<lparr>waits := waits s @ [NoHang (- 1)]\<rparr>"
  by (simp add: reaped_def cleanUp.simps waitpid_nohang_def)

text \<open>
  Claim C3. In any state of the shell whose pending input is two \<^verbatim>\<open>status\<close> lines, the
  first iteration prints the prompt and the current \<^verbatim>\<open>ENDSTATE\<close> (after what the reaper
  printed) and leaves \<^verbatim>\<open>ENDSTATE\<close> at \<^verbatim>\<open>exit value 0\<close>; the second iteration prints the
  prompt and \<^verbatim>\<open>exit value 0\<close>, whatever \<^verbatim>\<open>ENDSTATE\<close> was before the first.
\<close>

theorem status_read_reset:
  assumes "stdin s = ''status\<newline>status\<newline>'' @ rest"
  shows "\<exists>s1 s2. iteration e1 s = Inr (Return 0 s1) \<and>
     stdout s1 = stdout (reaped e1 s) @ '': '' @ ENDSTATE s @ ''\<newline>'' \<and>
     ENDSTATE s1 = ''exit value 0'' \<and>
     iteration e2 s1 = Inr (Return 0 s2) \<and>
     stdout s2 = stdout (reaped e2 s1) @ '': exit value 0\<newline>'' \<and>
     ENDSTATE s2 = ''exit value 0''"
proof -
  define s1 where "s1 = (reaped e1 s)\<lparr>stdout := stdout (reaped e1 s) @ '': '' @ ENDSTATE s @ ''\<newline>'',
        stdin := ''status\<newline>'' @ rest, ENDSTATE := ''exit value 0''\<rparr>"
  have i1: "iteration e1 s = Inr (Return 0 s1)"
    using iteration_status [of s "''status\<newline>'' @ rest" e1] assms by (simp add: s1_def)
  have "stdin s1 = ''status\<newline>'' @ rest" by (simp add: s1_def)
  note i2 = iteration_status [OF this, of e2]
  have e: "ENDSTATE s1 = ''exit value 0''" by (simp add: s1_def)
  show ?thesis
    using i1 i2 e by (simp add: s1_def)
qed

text \<open>
  Two \<^verbatim>\<open>status\<close> lines after a failed command (\<^verbatim>\<open>ENDSTATE\<close> is \<^verbatim>\<open>exit value 1\<close>): the
  first prints \<^verbatim>\<open>exit value 1\<close>, the second \<^verbatim>\<open>exit value 0\<close>.
\<close>

theorem status_read_reset_witness:
  "stdin ((startup SIG_DFL ''status\<newline>status\<newline>'')\<lparr>ENDSTATE := ''exit value 1''\<rparr>)
     = ''status\<newline>status\<newline>'' @ [] \<and>
   (\<exists>s1 s2.
      iteration sample_env ((startup SIG_DFL ''status\<newline>status\<newline>'')\<lparr>ENDSTATE := ''exit value 1''\<rparr>)
        = Inr (Return 0 s1) \<and>
      stdout s1 = '': exit value 1\<newline>'' \<and>
      iteration sample_env s1 = Inr (Return 0 s2) \<and>
      stdout s2 = '': exit value 1\<newline>: exit value 0\<newline>'')"
proof -
  define s0 where "s0 = (startup SIG_DFL ''status\<newline>status\<newline>'')\<lparr>ENDSTATE := ''exit value 1''\<rparr>"
  have h: "stdin s0 = ''status\<newline>status\<newline>'' @ []" by (simp add: s0_def startup_def)
  from status_read_reset [OF h, of sample_env sample_env] obtain s1 s2 where
    a: "iteration sample_env s0 = Inr (Return 0 s1)"
       "stdout s1 = stdout (reaped sample_env s0) @ '': '' @ ENDSTATE s0 @ ''\<newline>''"
       "iteration sample_env s1 = Inr (Return 0 s2)"
       "stdout s2 = stdout (reaped sample_env s1) @ '': exit value 0\<newline>''" by blast
  have j0: "jobs s0 = []" by (simp add: s0_def startup_def)
  have o1: "stdout s1 = '': exit value 1\<newline>''"
    using a(2) by (simp add: reaped_no_jobs [OF j0]) (simp add: s0_def startup_def)
  have "jobs s1 = []"
    using a(1) j0 h
    by (simp add: iteration_def reaped_no_jobs getCommand_def MAX_CMD_CHARS_def parse_eval
        execCommand_def arg_def) (auto simp: s0_def startup_def)
  then have "stdout s2 = '': exit value 1\<newline>: exit value 0\<newline>''"
    using a(4) o1 by (simp add: reaped_no_jobs)
  with a o1 h show ?thesis unfolding s0_def by blast
qed

text \<open>
  A session whose first line is \<^verbatim>\<open>status\<close> prints the prompt followed by \<^verbatim>\<open>NULL\<close> and a
  newline, and nothing else.
\<close>

lemma status_first_line:
  "ENDSTATE (startup d input) = ''NULL'' \<and>
   main d (''status\<newline>'' @ rest) [e] =
     Running ((startup d rest)\<lparr>stdout := '': NULL\<newline>'', ENDSTATE := ''exit value 0'',
        waits := [NoHang (- 1)]\<rparr>)"
proof -
  define s0 where "s0 = startup d (''status\<newline>'' @ rest)"
  have r: "reaped e s0 = s0\<lparr>waits := [NoHang (- 1)]\<rparr>"
    by (simp add: s0_def reaped_def startup_def cleanUp.simps waitpid_nohang_def)
  have "stdin s0 = ''status\<newline>'' @ rest"
    by (simp add: s0_def startup_def)
  from iteration_status [OF this, of e]
  have "iteration e s0 =
      Inr (Return 0 ((startup d rest)\<lparr>stdout := '': NULL\<newline>'', ENDSTATE := ''exit value 0'',
        waits := [NoHang (- 1)]\<rparr>))"
    unfolding r by (simp add: s0_def startup_def)
  then have "main d (''status\<newline>'' @ rest) [e] =
     Running ((startup d rest)\<lparr>stdout := '': NULL\<newline>'', ENDSTATE := ''exit value 0'',
        waits := [NoHang (- 1)]\<rparr>)"
    unfolding main_def s0_def [symmetric] by simp
  moreover have "ENDSTATE (startup d input) = ''NULL''" by (simp add: startup_def)
  ultimately show ?thesis by simp
qed

section \<open>Launching external commands\<close>

lemmas run_eval =
  cmd_of_def parse_eval arg_def sample_env_def startup_def fork_child_def childBranch_def
  childSetup_def redirectInput_def redirectOutput_def childExec_def sys_open_def wait_status_def
  show_int_def digits.simps DEVNULL_def

lemma execCommand_external:
  "arg cmd 0 = Some name \<Longrightarrow> argc cmd \<noteq> 0 \<Longrightarrow> take 1 name \<noteq> ''#'' \<Longrightarrow> name \<noteq> ''exit'' \<Longrightarrow>
   name \<noteq> ''status'' \<Longrightarrow> name \<noteq> ''cd'' \<Longrightarrow> execCommand e cmd s = launch e cmd s"
  by (simp add: execCommand_def)

text \<open>
  Claim C4. For an external command (\<^verbatim>\<open>argv[0]\<close> is none of the built-ins, no comment)
  and a successful \<^verbatim>\<open>fork\<close>: a foreground launch makes one blocking wait on the pid
  \<^verbatim>\<open>fork\<close> returned; a child that exited with code \<open>n\<close> leaves \<^verbatim>\<open>ENDSTATE\<close> at
  \<^verbatim>\<open>exit value n\<close>; a child killed by signal \<open>n\<close> leaves it at
  \<^verbatim>\<open>terminated by signal n\<close> and that line is printed at once; while the child does not
  terminate the call does not return. A background launch returns with \<^verbatim>\<open>ENDSTATE\<close>
  unchanged, no wait, and \<^verbatim>\<open>background pid is <pid>\<close> as its only output.
\<close>

theorem foreground_wait_records_status:
  assumes "arg cmd 0 = Some name" "argc cmd \<noteq> 0" "take 1 name \<noteq> ''#''" "name \<noteq> ''exit''"
    "name \<noteq> ''status''" "name \<noteq> ''cd''" "0 < fork_pid e"
  shows
    "(isBgProcess cmd = 0 \<longrightarrow>
        (\<forall>n. wait_status e (childBranch e cmd (fork_child s)) = Some (WExited n) \<longrightarrow>
           execCommand e cmd s =
             Return 0 (s\<lparr>waits := waits s @ [Blocking (fork_pid e)],
                          ENDSTATE := ''exit value '' @ show_int (int n)\<rparr>)) \<and>
        (\<forall>n. wait_status e (childBranch e cmd (fork_child s)) = Some (WSignaled n) \<longrightarrow>
           execCommand e cmd s =
             Return 0 (s\<lparr>waits := waits s @ [Blocking (fork_pid e)],
                          ENDSTATE := ''terminated by signal '' @ show_int (int n),
                          stdout := stdout s @ ''terminated by signal '' @ show_int (int n)
                                      @ ''\<newline>''\<rparr>)) \<and>
        (wait_status e (childBranch e cmd (fork_child s)) = None \<longrightarrow>
           execCommand e cmd s = Blocked (s\<lparr>waits := waits s @ [Blocking (fork_pid e)]\<rparr>))) \<and>
     (isBgProcess cmd \<noteq> 0 \<longrightarrow>
        (\<exists>s'. execCommand e cmd s = Return 0 s' \<and> ENDSTATE s' = ENDSTATE s \<and>
           stdout s' = stdout s @ ''background pid is '' @ show_int (fork_pid e) @ ''\<newline>'' \<and>
           stderr s' = stderr s \<and> waits s' = waits s))"
  using assms(7) unfolding execCommand_external [OF assms(1-6)]
  by (simp add: launch_def parentBranch_def Let_def)

text \<open>
  In the sample environment: \<^verbatim>\<open>bogus\<close> (the child exits with 1), \<^verbatim>\<open>sleep 100\<close> killed
  by signal 2, and \<^verbatim>\<open>sleep 100 &\<close>.
\<close>

theorem foreground_wait_records_status_witness:
  "(arg (cmd_of ''bogus\<newline>'') 0 = Some ''bogus'' \<and> isBgProcess (cmd_of ''bogus\<newline>'') = 0 \<and>
    0 < fork_pid sample_env \<and>
    execCommand sample_env (cmd_of ''bogus\<newline>'') (startup SIG_DFL []) =
      Return 0 ((startup SIG_DFL [])\<lparr>waits := [Blocking 100], ENDSTATE := ''exit value 1''\<rparr>)) \<and>
   (arg (cmd_of ''sleep 100\<newline>'') 0 = Some ''sleep'' \<and> isBgProcess (cmd_of ''sleep 100\<newline>'') = 0 \<and>
    execCommand (sample_env\<lparr>fate := Some (WSignaled 2)\<rparr>) (cmd_of ''sleep 100\<newline>'')
        (startup SIG_DFL []) =
      Return 0 ((startup SIG_DFL [])\<lparr>waits := [Blocking 100],
        ENDSTATE := ''terminated by signal 2'', stdout := ''terminated by signal 2\<newline>''\<rparr>)) \<and>
   (arg (cmd_of ''sleep 100 &\<newline>'') 0 = Some ''sleep'' \<and>
    isBgProcess (cmd_of ''sleep 100 &\<newline>'') \<noteq> 0 \<and>
    (\<exists>s'. execCommand sample_env (cmd_of ''sleep 100 &\<newline>'') (startup SIG_DFL []) = Return 0 s' \<and>
       ENDSTATE s' = ''NULL'' \<and> stdout s' = ''background pid is 100\<newline>'' \<and> waits s' = []))"
proof -
  let ?s = "startup SIG_DFL []"
  have a: "arg (cmd_of ''bogus\<newline>'') 0 = Some ''bogus''" "argc (cmd_of ''bogus\<newline>'') \<noteq> 0"
    "isBgProcess (cmd_of ''bogus\<newline>'') = 0" "0 < fork_pid sample_env"
    "wait_status sample_env (childBranch sample_env (cmd_of ''bogus\<newline>'') (fork_child ?s))
       = Some (WExited 1)"
    by (simp_all add: run_eval)
  have b: "arg (cmd_of ''sleep 100\<newline>'') 0 = Some ''sleep''" "argc (cmd_of ''sleep 100\<newline>'') \<noteq> 0"
    "isBgProcess (cmd_of ''sleep 100\<newline>'') = 0"
    "0 < fork_pid (sample_env\<lparr>fate := Some (WSignaled 2)\<rparr>)"
    "wait_status (sample_env\<lparr>fate := Some (WSignaled 2)\<rparr>)
       (childBranch (sample_env\<lparr>fate := Some (WSignaled 2)\<rparr>) (cmd_of ''sleep 100\<newline>'')
         (fork_child ?s)) = Some (WSignaled 2)"
    by (simp_all add: run_eval)
  have c: "arg (cmd_of ''sleep 100 &\<newline>'') 0 = Some ''sleep''"
    "argc (cmd_of ''sleep 100 &\<newline>'') \<noteq> 0" "isBgProcess (cmd_of ''sleep 100 &\<newline>'') \<noteq> 0"
    by (simp_all add: run_eval)
  have 1: "execCommand sample_env (cmd_of ''bogus\<newline>'') ?s =
      Return 0 (?s\<lparr>waits := [Blocking 100], ENDSTATE := ''exit value 1''\<rparr>)"
    using foreground_wait_records_status [OF a(1,2) _ _ _ _ a(4), of ?s] a(3,5)
    by (simp add: run_eval)
  have 2: "execCommand (sample_env\<lparr>fate := Some (WSignaled 2)\<rparr>) (cmd_of ''sleep 100\<newline>'') ?s =
      Return 0 (?s\<lparr>waits := [Blocking 100],
        ENDSTATE := ''terminated by signal 2'', stdout := ''terminated by signal 2\<newline>''\<rparr>)"
    using foreground_wait_records_status [OF b(1,2) _ _ _ _ b(4), of ?s] b(3,5)
    by (simp add: run_eval)
  have 3: "\<exists>s'. execCommand sample_env (cmd_of ''sleep 100 &\<newline>'') ?s = Return 0 s' \<and>
       ENDSTATE s' = ''NULL'' \<and> stdout s' = ''background pid is 100\<newline>'' \<and> waits s' = []"
    using foreground_wait_records_status [OF c(1,2) _ _ _ _ a(4), of ?s] c(3)
    by (simp add: run_eval) blast
  from a b c 1 2 3 show ?thesis by blast
qed

section \<open>The child branch\<close>

lemma childSetup_fg:
  "isBgProcess cmd = 0 \<Longrightarrow> childSetup cmd c = (cmd, c\<lparr>c_sigint := SIG_DFL\<rparr>)"
  by (simp add: childSetup_def)

lemma childSetup_bg:
  "isBgProcess cmd \<noteq> 0 \<Longrightarrow>
     childSetup cmd c =
       (cmd\<lparr>inRedirFile :=
               (if inRedirFile cmd = None \<and> wantsInputR cmd = 1 then Some DEVNULL
                else inRedirFile cmd),
            outRedirFile :=
               (if outRedirFile cmd = None \<and> wantsOutputR cmd = 1 then Some DEVNULL
                else outRedirFile cmd)\<rparr>, c)"
  by (simp add: childSetup_def Let_def)

text \<open>
  Claim C6. In a background child a redirection that was requested with a null path
  gets the path \<^verbatim>\<open>/dev/null\<close>, and nothing else of the descriptor changes; in a
  foreground child the descriptor is left as it is. So a background child with output
  (input) redirection requested and no path opens \<^verbatim>\<open>/dev/null\<close> and, when that and
  \<^verbatim>\<open>dup2\<close> succeed, runs the program with standard output (input) bound to it, having
  written nothing itself; the same descriptor in the foreground hands the null pointer
  to \<^verbatim>\<open>open\<close>.
\<close>

theorem null_device_substitution:
  "(isBgProcess cmd \<noteq> 0 \<longrightarrow>
      childSetup cmd c =
        (cmd\<lparr>inRedirFile :=
                (if inRedirFile cmd = None \<and> wantsInputR cmd = 1 then Some DEVNULL
                 else inRedirFile cmd),
             outRedirFile :=
                (if outRedirFile cmd = None \<and> wantsOutputR cmd = 1 then Some DEVNULL
                 else outRedirFile cmd)\<rparr>, c)) \<and>
   (isBgProcess cmd = 0 \<longrightarrow> fst (childSetup cmd c) = cmd) \<and>
   (isBgProcess cmd \<noteq> 0 \<and> wantsOutputR cmd = 1 \<and> outRedirFile cmd = None \<and>
    wantsInputR cmd \<noteq> 1 \<and> can_open e DEVNULL O_WRONLY_CREAT_TRUNC \<and> dup2_ok e \<and>
    arg cmd 0 = Some name \<and> exec_ok e name \<longrightarrow>
      childBranch e cmd c =
        ChildExec name (exec_args cmd)
          (c\<lparr>c_opens := c_opens c @ [(Some DEVNULL, O_WRONLY_CREAT_TRUNC)],
             c_fd1 := File DEVNULL\<rparr>)) \<and>
   (isBgProcess cmd \<noteq> 0 \<and> wantsInputR cmd = 1 \<and> inRedirFile cmd = None \<and>
    wantsOutputR cmd \<noteq> 1 \<and> can_open e DEVNULL O_RDONLY \<and> dup2_ok e \<and>
    arg cmd 0 = Some name \<and> exec_ok e name \<longrightarrow>
      childBranch e cmd c =
        ChildExec name (exec_args cmd)
          (c\<lparr>c_opens := c_opens c @ [(Some DEVNULL, O_RDONLY)], c_fd0 := File DEVNULL\<rparr>)) \<and>
   (isBgProcess cmd = 0 \<and> wantsOutputR cmd = 1 \<and> outRedirFile cmd = None \<and>
    wantsInputR cmd \<noteq> 1 \<longrightarrow>
      childBranch e cmd c =
        ChildUndefined
          (c\<lparr>c_sigint := SIG_DFL, c_opens := c_opens c @ [(None, O_WRONLY_CREAT_TRUNC)]\<rparr>))"
  by (simp add: childSetup_fg childSetup_bg childBranch_def redirectInput_def
      redirectOutput_def childExec_def sys_open_def Let_def arg_def exec_args_def)

text \<open>
  A background \<^verbatim>\<open>ls\<close> with output redirection requested and no path, in the sample
  environment.
\<close>

theorem null_device_substitution_witness:
  "isBgProcess ((cmd_of ''ls &\<newline>'')\<lparr>wantsOutputR := 1\<rparr>) \<noteq> 0 \<and>
   wantsOutputR ((cmd_of ''ls &\<newline>'')\<lparr>wantsOutputR := 1\<rparr>) = 1 \<and>
   outRedirFile ((cmd_of ''ls &\<newline>'')\<lparr>wantsOutputR := 1\<rparr>) = None \<and>
   childBranch sample_env ((cmd_of ''ls &\<newline>'')\<lparr>wantsOutputR := 1\<rparr>)
       (fork_child (startup SIG_DFL [])) =
     ChildExec ''ls'' (exec_args ((cmd_of ''ls &\<newline>'')\<lparr>wantsOutputR := 1\<rparr>))
       ((fork_child (startup SIG_DFL []))
          \<lparr>c_opens := [(Some ''/dev/null'', O_WRONLY_CREAT_TRUNC)], c_fd1 := File ''/dev/null''\<rparr>)"
proof -
  let ?c = "(cmd_of ''ls &\<newline>'')\<lparr>wantsOutputR := 1\<rparr>"
  have h: "isBgProcess ?c \<noteq> 0" "wantsOutputR ?c = 1" "outRedirFile ?c = None"
    "wantsInputR ?c \<noteq> 1" "can_open sample_env DEVNULL O_WRONLY_CREAT_TRUNC"
    "dup2_ok sample_env" "arg ?c 0 = Some ''ls''" "exec_ok sample_env ''ls''"
    by (simp_all add: run_eval)
  have "c_opens (fork_child (startup SIG_DFL [])) = []" by (simp add: fork_child_def)
  with null_device_substitution [of ?c "fork_child (startup SIG_DFL [])" sample_env "''ls''"] h
  show ?thesis by (simp add: DEVNULL_def)
qed

section \<open>The signal policy\<close>

lemma redirectInput_sigint: "redirectInput e cmd c = Inr c' \<Longrightarrow> c_sigint c' = c_sigint c"
  by (auto simp: redirectInput_def Let_def split: if_splits option.splits)

lemma redirectInput_sigint_end:
  "redirectInput e cmd c = Inl ce \<Longrightarrow> c_sigint (child_of ce) = c_sigint c"
  by (auto simp: redirectInput_def Let_def split: if_splits option.splits)

lemma redirectOutput_sigint: "redirectOutput e cmd c = Inr c' \<Longrightarrow> c_sigint c' = c_sigint c"
  by (auto simp: redirectOutput_def Let_def split: if_splits option.splits)

lemma redirectOutput_sigint_end:
  "redirectOutput e cmd c = Inl ce \<Longrightarrow> c_sigint (child_of ce) = c_sigint c"
  by (auto simp: redirectOutput_def Let_def split: if_splits option.splits)

lemma childExec_sigint: "c_sigint (child_of (childExec e cmd c)) = c_sigint c"
  by (simp add: childExec_def split: option.splits)

lemma childSetup_sigint:
  "childSetup cmd c = (cmd', c') \<Longrightarrow>
     c_sigint c' = (if isBgProcess cmd = 0 then SIG_DFL else c_sigint c)"
  by (auto simp: childSetup_def Let_def split: if_splits)

lemma childBranch_sigint:
  "c_sigint (child_of (childBranch e cmd c)) =
     (if isBgProcess cmd = 0 then SIG_DFL else c_sigint c)"
proof -
  obtain cmd' c1 where s: "childSetup cmd c = (cmd', c1)" by (cases "childSetup cmd c")
  note a = childSetup_sigint [OF s]
  show ?thesis
  proof (cases "redirectInput e cmd' c1")
    case (Inl ce)
    with redirectInput_sigint_end [OF Inl] a show ?thesis by (simp add: childBranch_def s)
  next
    case (Inr c2)
    note b = redirectInput_sigint [OF Inr]
    show ?thesis
    proof (cases "redirectOutput e cmd' c2")
      case (Inl ce)
      with redirectOutput_sigint_end [OF Inl] a b show ?thesis
        by (simp add: childBranch_def s Inr)
    next
      case r: (Inr c3)
      with redirectOutput_sigint [OF r] a b show ?thesis
        by (simp add: childBranch_def s Inr childExec_sigint)
    qed
  qed
qed

lemma policy_cleanUp: "policy s \<Longrightarrow> policy (cleanUp s)"
  using cleanUp_frame [of s] by (auto simp: policy_def)

lemma policy_reaped: "policy s \<Longrightarrow> policy (reaped e s)"
  unfolding reaped_def
  by (rule policy_cleanUp) (auto simp: policy_def job_ends_def split: option.splits)

lemma policy_getCommand: "policy s \<Longrightarrow> getCommand s = Inr (cmd, s1) \<Longrightarrow> policy s1"
  by (auto simp: getCommand_def policy_def Let_def split: prod.splits sum.splits)

lemma policy_execCommand: "policy s \<Longrightarrow> policy (result_shell (execCommand e cmd s))"
proof -
  assume p: "policy s"
  have "c_sigint (fork_child s) = SIG_IGN" using p by (simp add: fork_child_def policy_def)
  then have c: "isBgProcess cmd \<noteq> 0 \<Longrightarrow>
      c_sigint (child_of (childBranch e cmd (fork_child s))) = SIG_IGN"
    by (simp add: childBranch_sigint)
  have l: "policy (result_shell (launch e cmd s))"
    using p c
    by (auto simp: launch_def parentBranch_def Let_def policy_def split: option.splits)
  have x: "policy (result_shell (builtin_exit s))"
    using p
    by (auto simp: builtin_exit_def Let_def policy_def job_sigterm_def split: option.splits)
  have d: "policy (result_shell (builtin_cd e cmd s))"
    using p by (auto simp: builtin_cd_def Let_def policy_def)
  show ?thesis
    using p l x d
    by (auto simp: execCommand_def policy_def split: option.splits)
qed

lemma policy_iteration: "policy s \<Longrightarrow> iteration e s = Inr r \<Longrightarrow> policy (result_shell r)"
  using policy_execCommand policy_getCommand [OF policy_reaped]
  by (auto simp: iteration_def split: sum.splits prod.splits)

lemma policy_mainLoop: "policy s \<Longrightarrow> outcome_shell (mainLoop es s) = Some s' \<Longrightarrow> policy s'"
proof (induction es arbitrary: s)
  case Nil
  then show ?case by simp
next
  case (Cons e es)
  show ?case
  proof (cases "iteration e s")
    case (Inl a)
    with Cons.prems show ?thesis by simp
  next
    case (Inr r)
    note q = policy_iteration [OF Cons.prems(1) Inr]
    show ?thesis
    proof (cases r)
      case (Return n s2)
      with Cons.prems Inr q Cons.IH [of s2] show ?thesis by (auto split: if_splits)
    qed (use Cons.prems Inr q in auto)
  qed
qed

lemma policy_reachable: "outcome_shell (main d input es) = Some s \<Longrightarrow> policy s"
  using policy_mainLoop [of "startup d input" es s]
  by (simp add: main_def policy_def startup_def)

text \<open>
  Claim C1. In every state the shell reaches, after any number of iterations on any
  input and in any environment, the shell ignores the interrupt signal, so an
  interrupt does nothing to it; so does every background child it has not yet waited
  for. A child forked from that state ends its setup (it exits, or reaches
  \<^verbatim>\<open>execvp\<close>) with the default disposition when the command is a foreground one, and an
  interrupt then terminates it; with the inherited disposition, ignore, when it is a
  background one, and an interrupt does nothing to it.
\<close>

theorem signal_policy:
  assumes "outcome_shell (main d input es) = Some s"
  shows "sigint s = SIG_IGN \<and> deliver SIGINT (sigint s) = None \<and>
    (\<forall>j\<in>set (jobs s). c_sigint (j_proc j) = SIG_IGN) \<and>
    (\<forall>e cmd. c_sigint (child_of (childBranch e cmd (fork_child s))) =
        (if isBgProcess cmd = 0 then SIG_DFL else SIG_IGN)) \<and>
    (\<forall>e cmd. deliver SIGINT (c_sigint (child_of (childBranch e cmd (fork_child s)))) =
        (if isBgProcess cmd = 0 then Some (WSignaled SIGINT) else None))"
proof -
  from policy_reachable [OF assms] have p: "policy s" .
  then have "c_sigint (fork_child s) = SIG_IGN" by (simp add: fork_child_def policy_def)
  with p show ?thesis by (simp add: policy_def childBranch_sigint deliver_def)
qed

lemmas loop_eval =
  main_def iteration_def reaped_def cleanUp.simps waitpid_nohang_def getCommand_def
  MAX_CMD_CHARS_def execCommand_def launch_def parentBranch_def builtin_exit_def builtin_cd_def
  job_ends_def job_sigterm_def deliver_def SIGTERM_def SIGINT_def

text \<open>
  The session \<^verbatim>\<open>sleep 100 &\<close> in the sample environment: one background child; a
  following \<^verbatim>\<open>ls\<close> would run with the default disposition, \<^verbatim>\<open>ls &\<close> with ignore.
\<close>

theorem signal_policy_witness:
  "\<exists>s. outcome_shell (main SIG_DFL ''sleep 100 &\<newline>'' [sample_env]) = Some s \<and>
     length (jobs s) = 1 \<and> sigint s = SIG_IGN \<and>
     map (\<lambda>j. c_sigint (j_proc j)) (jobs s) = [SIG_IGN] \<and>
     c_sigint (child_of (childBranch sample_env (cmd_of ''ls\<newline>'') (fork_child s))) = SIG_DFL \<and>
     c_sigint (child_of (childBranch sample_env (cmd_of ''ls &\<newline>'') (fork_child s))) = SIG_IGN"
proof -
  obtain s where s: "outcome_shell (main SIG_DFL ''sleep 100 &\<newline>'' [sample_env]) = Some s"
    and n: "length (jobs s) = 1"
    by (simp add: loop_eval run_eval)
  have "isBgProcess (cmd_of ''ls\<newline>'') = 0" "isBgProcess (cmd_of ''ls &\<newline>'') \<noteq> 0"
    by (simp_all add: run_eval)
  moreover from n obtain j where j: "jobs s = [j]"
    by (cases "jobs s") auto
  ultimately show ?thesis using signal_policy [OF s] s by auto
qed

section \<open>Waiting for children\<close>

lemma getCommand_frame:
  "getCommand s = Inr (cmd, s1) \<Longrightarrow>
     stdout s1 = stdout s @ '': '' \<and> waits s1 = waits s \<and> jobs s1 = jobs s"
  by (auto simp: getCommand_def Let_def split: prod.splits sum.splits)

lemma execCommand_waits:
  "waits (result_shell (execCommand e cmd s)) = waits s \<or>
   waits (result_shell (execCommand e cmd s)) = waits s @ [Blocking (fork_pid e)] \<and>
     isBgProcess cmd = 0 \<and> 0 < fork_pid e \<and> jobs (result_shell (execCommand e cmd s)) = jobs s"
  by (auto simp: execCommand_def launch_def parentBranch_def builtin_exit_def builtin_cd_def
      Let_def split: option.splits)

text \<open>
  Claim C5. \<^verbatim>\<open>cleanUp\<close> makes non-blocking waits for any child only, one for each
  terminated child and a last one that finds none; it removes exactly the terminated
  children and prints the \<^verbatim>\<open>background pid <id> is done: ...\<close> line of each, in order.
  In an iteration it runs first, then the prompt is printed, and the command then adds no
  wait at all or one blocking wait, which is on the pid \<^verbatim>\<open>fork\<close> has just returned for
  a foreground command and reaps no other child. (The pids of the children are
  positive, as they are in every state the shell reaches.)
\<close>

theorem reaper_never_blocks:
  assumes "\<forall>j\<in>set (jobs s). 0 < j_pid j"
  shows
    "cleanUp s =
       s\<lparr>jobs := filter (\<lambda>j. j_status j = None) (jobs s),
         stdout := stdout s @ concat (map report (filter (\<lambda>j. j_status j \<noteq> None) (jobs s))),
         waits := waits s @
           replicate (Suc (length (filter (\<lambda>j. j_status j \<noteq> None) (jobs s)))) (NoHang (- 1))\<rparr> \<and>
     (\<forall>r. iteration e s = Inr r \<longrightarrow>
        (\<exists>cmd s1. getCommand (reaped e s) = Inr (cmd, s1) \<and> r = execCommand e cmd s1 \<and>
           stdout s1 = stdout (reaped e s) @ '': '' \<and> waits s1 = waits (reaped e s) \<and>
           (waits (result_shell r) = waits s1 \<or>
            waits (result_shell r) = waits s1 @ [Blocking (fork_pid e)] \<and>
              isBgProcess cmd = 0 \<and> 0 < fork_pid e \<and> jobs (result_shell r) = jobs s1)))"
proof -
  have "\<exists>cmd s1. getCommand (reaped e s) = Inr (cmd, s1) \<and> r = execCommand e cmd s1 \<and>
           stdout s1 = stdout (reaped e s) @ '': '' \<and> waits s1 = waits (reaped e s) \<and>
           (waits (result_shell r) = waits s1 \<or>
            waits (result_shell r) = waits s1 @ [Blocking (fork_pid e)] \<and>
              isBgProcess cmd = 0 \<and> 0 < fork_pid e \<and> jobs (result_shell r) = jobs s1)"
    if i: "iteration e s = Inr r" for r
  proof -
    from i obtain cmd s1 where g: "getCommand (reaped e s) = Inr (cmd, s1)"
      and r: "r = execCommand e cmd s1"
      by (auto simp: iteration_def split: sum.splits prod.splits)
    from getCommand_frame [OF g] execCommand_waits [of e cmd s1] g r show ?thesis by blast
  qed
  with cleanUp_char [OF assms] show ?thesis by blast
qed

text \<open>
  A shell with a running child 7 and a terminated child 8, reading \<^verbatim>\<open>ls\<close> in the sample
  environment: the reaper reports child 8 in two non-blocking waits, and the only
  blocking wait is on pid 100, the foreground \<^verbatim>\<open>ls\<close>.
\<close>

theorem reaper_never_blocks_witness:
  "map j_pid (jobs ((startup SIG_DFL ''ls\<newline>'')
        \<lparr>jobs := [\<lparr>j_pid = 7, j_proc = fork_child (startup SIG_DFL []), j_status = None\<rparr>,
                  \<lparr>j_pid = 8, j_proc = fork_child (startup SIG_DFL []),
                   j_status = Some (WExited 3)\<rparr>]\<rparr>)) = [7, 8] \<and>
   cleanUp ((startup SIG_DFL ''ls\<newline>'')
        \<lparr>jobs := [\<lparr>j_pid = 7, j_proc = fork_child (startup SIG_DFL []), j_status = None\<rparr>,
                  \<lparr>j_pid = 8, j_proc = fork_child (startup SIG_DFL []),
                   j_status = Some (WExited 3)\<rparr>]\<rparr>) =
     (startup SIG_DFL ''ls\<newline>'')
        \<lparr>jobs := [\<lparr>j_pid = 7, j_proc = fork_child (startup SIG_DFL []), j_status = None\<rparr>],
         stdout := ''background pid 8 is done: exit value 3\<newline>'',
         waits := [NoHang (- 1), NoHang (- 1)]\<rparr> \<and>
   (\<exists>r. iteration sample_env ((startup SIG_DFL ''ls\<newline>'')
        \<lparr>jobs := [\<lparr>j_pid = 7, j_proc = fork_child (startup SIG_DFL []), j_status = None\<rparr>,
                  \<lparr>j_pid = 8, j_proc = fork_child (startup SIG_DFL []),
                   j_status = Some (WExited 3)\<rparr>]\<rparr>) = Inr r \<and>
      waits (result_shell r) = [NoHang (- 1), NoHang (- 1), Blocking 100])"
proof -
  define s0 where "s0 = (startup SIG_DFL ''ls\<newline>'')
        \<lparr>jobs := [\<lparr>j_pid = 7, j_proc = fork_child (startup SIG_DFL []), j_status = None\<rparr>,
                  \<lparr>j_pid = 8, j_proc = fork_child (startup SIG_DFL []),
                   j_status = Some (WExited 3)\<rparr>]\<rparr>"
  have pos: "\<forall>j\<in>set (jobs s0). 0 < j_pid j" by (simp add: s0_def)
  note t = reaper_never_blocks [OF pos, of sample_env]
  have c: "cleanUp s0 = (startup SIG_DFL ''ls\<newline>'')
        \<lparr>jobs := [\<lparr>j_pid = 7, j_proc = fork_child (startup SIG_DFL []), j_status = None\<rparr>],
         stdout := ''background pid 8 is done: exit value 3\<newline>'',
         waits := [NoHang (- 1), NoHang (- 1)]\<rparr>"
    using t by (simp add: s0_def startup_def report_def show_int_def digits.simps)
  have r: "reaped sample_env s0 = cleanUp s0"
    by (simp add: reaped_def s0_def job_ends_def sample_env_def)
  obtain r where i: "iteration sample_env s0 = Inr r"
    unfolding iteration_def r c
    by (simp add: getCommand_def MAX_CMD_CHARS_def parse_eval startup_def)
  from t i obtain cmd s1 where g: "getCommand (reaped sample_env s0) = Inr (cmd, s1)"
    and x: "r = execCommand sample_env cmd s1" by blast
  have w: "waits (result_shell r) = [NoHang (- 1), NoHang (- 1), Blocking 100]"
    using g unfolding x r c
    by (auto simp: getCommand_def MAX_CMD_CHARS_def parse_eval startup_def execCommand_def
        arg_def launch_def parentBranch_def sample_env_def wait_status_def fork_child_def
        childBranch_def childSetup_def redirectInput_def redirectOutput_def childExec_def)
  have "map j_pid (jobs s0) = [7, 8]" by (simp add: s0_def)
  with c i w show ?thesis unfolding s0_def by blast
qed

section \<open>The exit built-in\<close>

text \<open>
  Claim C2 at the input line \<^verbatim>\<open>exit\<close>. A shell that starts with the default disposition
  for the terminate signal is terminated by the signal it sends to its own process
  group and does not leave with code 0; a shell that ignores the signal leaves with
  code 0. With a background \<^verbatim>\<open>sleep 100\<close> outstanding, the first shell's child is
  terminated with it, the second shell's child, which inherited the ignore disposition,
  keeps running.
\<close>

theorem exit_builtin_terminates_shell:
  "main SIG_DFL (''exit\<newline>'' @ rest) (e # es) =
     Signaled SIGTERM ((startup SIG_DFL rest)\<lparr>stdout := '': '', waits := [NoHang (- 1)]\<rparr>) \<and>
   main SIG_IGN (''exit\<newline>'' @ rest) (e # es) =
     Exited 0 ((startup SIG_IGN rest)\<lparr>stdout := '': '', waits := [NoHang (- 1)]\<rparr>) \<and>
   (\<exists>s. main SIG_DFL ''sleep 100 &\<newline>exit\<newline>'' [sample_env, sample_env] = Signaled SIGTERM s \<and>
      map j_status (jobs s) = [Some (WSignaled SIGTERM)]) \<and>
   (\<exists>s. main SIG_IGN ''sleep 100 &\<newline>exit\<newline>'' [sample_env, sample_env] = Exited 0 s \<and>
      map j_status (jobs s) = [None])"
  by (simp add: loop_eval startup_def parse_eval arg_def sample_env_def wait_status_def
      fork_child_def childBranch_def childSetup_def redirectInput_def redirectOutput_def
      childExec_def)

section \<open>Setup errors of the child and the loop\<close>

lemma getCommand_keeps:
  "getCommand s = Inr (cmd, s1) \<Longrightarrow>
     ENDSTATE s1 = ENDSTATE s \<and> stderr s1 = stderr s \<and> sigint s1 = sigint s \<and>
     sigterm s1 = sigterm s"
  by (auto simp: getCommand_def Let_def split: prod.splits sum.splits)

lemma reaped_stderr: "stderr (reaped e s) = stderr s"
  using cleanUp_frame [of "s\<lparr>jobs := map (job_ends (exits e)) (jobs s)\<rparr>"]
  by (simp add: reaped_def)

text \<open>
  Claim C7. After the child's setup of lines 254-273: when the input file does not open
  the child writes \<^verbatim>\<open>cannot open <path> for input\<close> to standard error and exits with
  status 1; when the output file does not open, \<^verbatim>\<open>cannot open <path> for output\<close> and
  status 1; when \<^verbatim>\<open>execvp\<close> fails, \<^verbatim>\<open><name>: no such file or directory\<close> and status 1.
  Whenever the child exits with status 1, \<^verbatim>\<open>execCommand\<close> in the parent returns 0, with
  nothing written to the shell's own standard error, and after a foreground launch
  \<^verbatim>\<open>ENDSTATE\<close> is \<^verbatim>\<open>exit value 1\<close>. The iteration of \<^verbatim>\<open>main\<close>'s loop that read the command
  then ends with \<^verbatim>\<open>exitCalled\<close> 0, and the loop goes on: whatever iterations follow are
  run from the state that iteration reached.
\<close>

theorem child_setup_errors:
  assumes "childSetup cmd (fork_child s) = (cmd', c1)"
  shows
    "(wantsInputR cmd' = 1 \<and> inRedirFile cmd' = Some path \<and> \<not> can_open e path O_RDONLY \<longrightarrow>
        (\<exists>c. childBranch e cmd (fork_child s) = ChildExit 1 c \<and>
           c_stderr c = ''cannot open '' @ path @ '' for input\<newline>'')) \<and>
     (redirectInput e cmd' c1 = Inr c2 \<and> wantsOutputR cmd' = 1 \<and> outRedirFile cmd' = Some path \<and>
      \<not> can_open e path O_WRONLY_CREAT_TRUNC \<longrightarrow>
        (\<exists>c. childBranch e cmd (fork_child s) = ChildExit 1 c \<and>
           c_stderr c = ''cannot open '' @ path @ '' for output\<newline>'')) \<and>
     (redirectInput e cmd' c1 = Inr c2 \<and> redirectOutput e cmd' c2 = Inr c3 \<and>
      arg cmd' 0 = Some name \<and> \<not> exec_ok e name \<longrightarrow>
        (\<exists>c. childBranch e cmd (fork_child s) = ChildExit 1 c \<and>
           c_stderr c = name @ '': no such file or directory\<newline>'')) \<and>
     (childBranch e cmd (fork_child s) = ChildExit 1 c \<and> 0 < fork_pid e \<and>
      arg cmd 0 = Some name \<and> argc cmd \<noteq> 0 \<and> take 1 name \<noteq> ''#'' \<and> name \<noteq> ''exit'' \<and>
      name \<noteq> ''status'' \<and> name \<noteq> ''cd'' \<longrightarrow>
        (\<exists>s'. execCommand e cmd s = Return 0 s' \<and> stderr s' = stderr s \<and>
           (isBgProcess cmd = 0 \<longrightarrow> ENDSTATE s' = ''exit value 1''))) \<and>
     (getCommand (reaped e s0) = Inr (cmd, s) \<and>
      childBranch e cmd (fork_child s) = ChildExit 1 c \<and> 0 < fork_pid e \<and>
      arg cmd 0 = Some name \<and> argc cmd \<noteq> 0 \<and> take 1 name \<noteq> ''#'' \<and> name \<noteq> ''exit'' \<and>
      name \<noteq> ''status'' \<and> name \<noteq> ''cd'' \<longrightarrow>
        (\<exists>s'. iteration e s0 = Inr (Return 0 s') \<and>
           (\<forall>es. mainLoop (e # es) s0 = mainLoop es s') \<and> stderr s' = stderr s0 \<and>
           (isBgProcess cmd = 0 \<longrightarrow> ENDSTATE s' = ''exit value 1'')))"
proof -
  have e1: "c_stderr c1 = []"
    using assms by (auto simp: childSetup_def fork_child_def Let_def split: if_splits)
  have e2: "redirectInput e cmd' c1 = Inr c2 \<Longrightarrow> c_stderr c2 = []" for c2
    using e1 by (auto simp: redirectInput_def Let_def split: if_splits option.splits)
  have e3: "redirectInput e cmd' c1 = Inr c2 \<Longrightarrow> redirectOutput e cmd' c2 = Inr c3 \<Longrightarrow>
      c_stderr c3 = []" for c2 c3
    using e2 [of c2] by (auto simp: redirectOutput_def Let_def split: if_splits option.splits)
  have 1: "wantsInputR cmd' = 1 \<and> inRedirFile cmd' = Some path \<and> \<not> can_open e path O_RDONLY \<longrightarrow>
        (\<exists>c. childBranch e cmd (fork_child s) = ChildExit 1 c \<and>
           c_stderr c = ''cannot open '' @ path @ '' for input\<newline>'')"
    using e1 by (simp add: childBranch_def assms redirectInput_def sys_open_def Let_def)
  have 2: "redirectInput e cmd' c1 = Inr c2 \<and> wantsOutputR cmd' = 1 \<and>
      outRedirFile cmd' = Some path \<and> \<not> can_open e path O_WRONLY_CREAT_TRUNC \<longrightarrow>
        (\<exists>c. childBranch e cmd (fork_child s) = ChildExit 1 c \<and>
           c_stderr c = ''cannot open '' @ path @ '' for output\<newline>'')"
    using e2 [of c2] by (auto simp: childBranch_def assms redirectOutput_def sys_open_def Let_def)
  have 3: "redirectInput e cmd' c1 = Inr c2 \<and> redirectOutput e cmd' c2 = Inr c3 \<and>
      arg cmd' 0 = Some name \<and> \<not> exec_ok e name \<longrightarrow>
        (\<exists>c. childBranch e cmd (fork_child s) = ChildExit 1 c \<and>
           c_stderr c = name @ '': no such file or directory\<newline>'')"
    using e3 [of c2 c3] by (auto simp: childBranch_def assms childExec_def)
  have 4: "childBranch e cmd (fork_child s) = ChildExit 1 c \<and> 0 < fork_pid e \<and>
      arg cmd 0 = Some name \<and> argc cmd \<noteq> 0 \<and> take 1 name \<noteq> ''#'' \<and> name \<noteq> ''exit'' \<and>
      name \<noteq> ''status'' \<and> name \<noteq> ''cd'' \<longrightarrow>
        (\<exists>s'. execCommand e cmd s = Return 0 s' \<and> stderr s' = stderr s \<and>
           (isBgProcess cmd = 0 \<longrightarrow> ENDSTATE s' = ''exit value 1''))"
    by (auto simp: execCommand_external launch_def parentBranch_def wait_status_def Let_def
        show_int_def digits.simps)
  have 5: "getCommand (reaped e s0) = Inr (cmd, s) \<and>
      childBranch e cmd (fork_child s) = ChildExit 1 c \<and> 0 < fork_pid e \<and>
      arg cmd 0 = Some name \<and> argc cmd \<noteq> 0 \<and> take 1 name \<noteq> ''#'' \<and> name \<noteq> ''exit'' \<and>
      name \<noteq> ''status'' \<and> name \<noteq> ''cd'' \<longrightarrow>
        (\<exists>s'. iteration e s0 = Inr (Return 0 s') \<and>
           (\<forall>es. mainLoop (e # es) s0 = mainLoop es s') \<and> stderr s' = stderr s0 \<and>
           (isBgProcess cmd = 0 \<longrightarrow> ENDSTATE s' = ''exit value 1''))"
  proof
    assume h: "getCommand (reaped e s0) = Inr (cmd, s) \<and>
      childBranch e cmd (fork_child s) = ChildExit 1 c \<and> 0 < fork_pid e \<and>
      arg cmd 0 = Some name \<and> argc cmd \<noteq> 0 \<and> take 1 name \<noteq> ''#'' \<and> name \<noteq> ''exit'' \<and>
      name \<noteq> ''status'' \<and> name \<noteq> ''cd''"
    with 4 obtain s' where x: "execCommand e cmd s = Return 0 s'" "stderr s' = stderr s"
      "isBgProcess cmd = 0 \<longrightarrow> ENDSTATE s' = ''exit value 1''" by blast
    from h have g: "getCommand (reaped e s0) = Inr (cmd, s)" by simp
    have i: "iteration e s0 = Inr (Return 0 s')" by (simp add: iteration_def g x(1))
    then have "\<forall>es. mainLoop (e # es) s0 = mainLoop es s'" by simp
    moreover have "stderr s = stderr s0"
      using getCommand_keeps [OF g] by (simp add: reaped_stderr)
    ultimately show "\<exists>s'. iteration e s0 = Inr (Return 0 s') \<and>
           (\<forall>es. mainLoop (e # es) s0 = mainLoop es s') \<and> stderr s' = stderr s0 \<and>
           (isBgProcess cmd = 0 \<longrightarrow> ENDSTATE s' = ''exit value 1'')"
      using i x by auto
  qed
  from 1 2 3 4 5 show ?thesis by blast
qed

text \<open>
  In the sample environment: \<^verbatim>\<open>cat < nofile\<close>, \<^verbatim>\<open>ls > out\<close> and \<^verbatim>\<open>bogus\<close>; and the
  session \<^verbatim>\<open>bogus\<close>, \<^verbatim>\<open>status\<close>, whose second iteration runs and prints
  \<^verbatim>\<open>exit value 1\<close>.
\<close>

theorem child_setup_errors_witness:
  "(\<exists>c. childBranch sample_env (cmd_of ''cat < nofile\<newline>'') (fork_child (startup SIG_DFL []))
          = ChildExit 1 c \<and> c_stderr c = ''cannot open nofile for input\<newline>'') \<and>
   (\<exists>c. childBranch sample_env (cmd_of ''ls > out\<newline>'') (fork_child (startup SIG_DFL []))
          = ChildExit 1 c \<and> c_stderr c = ''cannot open out for output\<newline>'') \<and>
   (\<exists>c. childBranch sample_env (cmd_of ''bogus\<newline>'') (fork_child (startup SIG_DFL []))
          = ChildExit 1 c \<and> c_stderr c = ''bogus: no such file or directory\<newline>'') \<and>
   (\<exists>s'. execCommand sample_env (cmd_of ''bogus\<newline>'') (startup SIG_DFL []) = Return 0 s' \<and>
      stderr s' = [] \<and> ENDSTATE s' = ''exit value 1'') \<and>
   (\<exists>s' s2. iteration sample_env (startup SIG_DFL ''bogus\<newline>status\<newline>'') = Inr (Return 0 s') \<and>
      ENDSTATE s' = ''exit value 1'' \<and>
      main SIG_DFL ''bogus\<newline>status\<newline>'' [sample_env, sample_env] = mainLoop [sample_env] s' \<and>
      main SIG_DFL ''bogus\<newline>status\<newline>'' [sample_env, sample_env] = Running s2 \<and>
      stdout s2 = '': : exit value 1\<newline>'' \<and> stderr s2 = [])"
proof -
  let ?s = "startup SIG_DFL []"
  let ?c = "(fork_child ?s)\<lparr>c_sigint := SIG_DFL\<rparr>"
  let ?i = "cmd_of ''cat < nofile\<newline>''"
  let ?o = "cmd_of ''ls > out\<newline>''"
  let ?x = "cmd_of ''bogus\<newline>''"
  have si: "childSetup ?i (fork_child ?s) = (?i, ?c)"
    and so: "childSetup ?o (fork_child ?s) = (?o, ?c)"
    and sx: "childSetup ?x (fork_child ?s) = (?x, ?c)"
    by (simp_all add: childSetup_def cmd_of_def parse_eval)
  have hi: "wantsInputR ?i = 1 \<and> inRedirFile ?i = Some ''nofile'' \<and>
      \<not> can_open sample_env ''nofile'' O_RDONLY"
    by (simp add: run_eval)
  have ho: "redirectInput sample_env ?o ?c = Inr ?c \<and> wantsOutputR ?o = 1 \<and>
      outRedirFile ?o = Some ''out'' \<and> \<not> can_open sample_env ''out'' O_WRONLY_CREAT_TRUNC"
    by (simp add: run_eval)
  have hx: "redirectInput sample_env ?x ?c = Inr ?c \<and> redirectOutput sample_env ?x ?c = Inr ?c \<and>
      arg ?x 0 = Some ''bogus'' \<and> \<not> exec_ok sample_env ''bogus''"
    by (simp add: run_eval)
  have 1: "\<exists>c. childBranch sample_env ?i (fork_child ?s) = ChildExit 1 c \<and>
      c_stderr c = ''cannot open nofile for input\<newline>''"
    using child_setup_errors [OF si, of "''nofile''" sample_env] hi by simp
  have 2: "\<exists>c. childBranch sample_env ?o (fork_child ?s) = ChildExit 1 c \<and>
      c_stderr c = ''cannot open out for output\<newline>''"
    using child_setup_errors [OF so, of "''out''" sample_env ?c] ho by simp
  have 3: "\<exists>c. childBranch sample_env ?x (fork_child ?s) = ChildExit 1 c \<and>
      c_stderr c = ''bogus: no such file or directory\<newline>''"
    using child_setup_errors [OF sx, of _ sample_env ?c ?c "''bogus''"] hx by simp
  then obtain c where c: "childBranch sample_env ?x (fork_child ?s) = ChildExit 1 c" by blast
  have px: "0 < fork_pid sample_env \<and> arg ?x 0 = Some ''bogus'' \<and> argc ?x \<noteq> 0 \<and>
      isBgProcess ?x = 0 \<and> stderr ?s = []"
    by (simp add: run_eval)
  have 4: "\<exists>s'. execCommand sample_env ?x ?s = Return 0 s' \<and> stderr s' = [] \<and>
      ENDSTATE s' = ''exit value 1''"
    using child_setup_errors [OF sx, of _ sample_env _ _ "''bogus''" c] c px by simp
  let ?start = "startup SIG_DFL ''bogus\<newline>status\<newline>''"
  let ?read = "?start\<lparr>stdout := '': '', stdin := ''status\<newline>'', waits := [NoHang (- 1)]\<rparr>"
  have g: "getCommand (reaped sample_env ?start) = Inr (?x, ?read)"
    by (simp add: reaped_no_jobs startup_def getCommand_def MAX_CMD_CHARS_def cmd_of_def parse_eval)
  have f: "fork_child ?read = fork_child ?s" by (simp add: fork_child_def startup_def)
  have sx1: "childSetup ?x (fork_child ?read) = (?x, ?c)" unfolding f by (rule sx)
  have c1: "childBranch sample_env ?x (fork_child ?read) = ChildExit 1 c" unfolding f by (rule c)
  have ne: "take 1 ''bogus'' \<noteq> ''#''" "''bogus'' \<noteq> ''exit''" "''bogus'' \<noteq> ''status''"
    "''bogus'' \<noteq> ''cd''" by simp_all
  have "\<exists>s'. iteration sample_env ?start = Inr (Return 0 s') \<and>
      (\<forall>es. mainLoop (sample_env # es) ?start = mainLoop es s') \<and>
      stderr s' = stderr ?start \<and> (isBgProcess ?x = 0 \<longrightarrow> ENDSTATE s' = ''exit value 1'')"
  proof (rule mp)
    show "getCommand (reaped sample_env ?start) = Inr (?x, ?read) \<and>
      childBranch sample_env ?x (fork_child ?read) = ChildExit 1 c \<and> 0 < fork_pid sample_env \<and>
      arg ?x 0 = Some ''bogus'' \<and> argc ?x \<noteq> 0 \<and> take 1 ''bogus'' \<noteq> ''#'' \<and>
      ''bogus'' \<noteq> ''exit'' \<and> ''bogus'' \<noteq> ''status'' \<and> ''bogus'' \<noteq> ''cd''"
      using g c1 px ne by blast
  qed (rule child_setup_errors [OF sx1, of _ sample_env _ _ "''bogus''" c ?start,
        THEN conjunct2, THEN conjunct2, THEN conjunct2, THEN conjunct2])
  then obtain s' where l: "iteration sample_env ?start = Inr (Return 0 s')"
    "\<forall>es. mainLoop (sample_env # es) ?start = mainLoop es s'" "ENDSTATE s' = ''exit value 1''"
    using px by blast
  have m: "main SIG_DFL ''bogus\<newline>status\<newline>'' [sample_env, sample_env] = mainLoop [sample_env] s'"
    using l(2) by (simp add: main_def)
  define s2 where "s2 = ?start\<lparr>stdout := '': : exit value 1\<newline>'', stdin := [],
      ENDSTATE := ''exit value 0'', waits := [NoHang (- 1), Blocking 100, NoHang (- 1)]\<rparr>"
  have r: "main SIG_DFL ''bogus\<newline>status\<newline>'' [sample_env, sample_env] = Running s2"
    unfolding s2_def by (simp add: loop_eval run_eval)
  have "stdout s2 = '': : exit value 1\<newline>''" "stderr s2 = []"
    by (simp_all add: s2_def startup_def)
  with l m r have 5: "\<exists>s' s2. iteration sample_env ?start = Inr (Return 0 s') \<and>
      ENDSTATE s' = ''exit value 1'' \<and>
      main SIG_DFL ''bogus\<newline>status\<newline>'' [sample_env, sample_env] = mainLoop [sample_env] s' \<and>
      main SIG_DFL ''bogus\<newline>status\<newline>'' [sample_env, sample_env] = Running s2 \<and>
      stdout s2 = '': : exit value 1\<newline>'' \<and> stderr s2 = []" by blast
  from 1 2 3 4 5 show ?thesis by blast
qed

section \<open>The initial record\<close>

lemma execCommand_keeps_record:
  "\<not> writes_record cmd \<Longrightarrow> ENDSTATE (result_shell (execCommand e cmd s)) = ENDSTATE s"
  by (auto simp: writes_record_def execCommand_def builtin_exit_def launch_def parentBranch_def
      Let_def split: option.splits)

lemma mainLoop_keeps_record:
  "\<forall>cmd\<in>set (commands es s). \<not> writes_record cmd \<Longrightarrow>
     outcome_shell (mainLoop es s) = Some s' \<Longrightarrow> ENDSTATE s' = ENDSTATE s"
proof (induction es arbitrary: s)
  case Nil
  then show ?case by simp
next
  case (Cons e es)
  show ?case
  proof (cases "getCommand (reaped e s)")
    case (Inl err)
    with Cons.prems(2) show ?thesis by (simp add: iteration_def)
  next
    case (Inr a)
    obtain cmd s1 where a: "a = (cmd, s1)" by (cases a)
    from Cons.prems(1) Inr a have q: "\<not> writes_record cmd" by simp
    have e1: "ENDSTATE s1 = ENDSTATE s"
      using getCommand_keeps [OF Inr [unfolded a]] by (simp add: reaped_frame)
    note k = execCommand_keeps_record [OF q, of e s1]
    show ?thesis
    proof (cases "execCommand e cmd s1")
      case (Return n s2)
      show ?thesis
      proof (cases "n = 0")
        case True
        from Cons.prems(1) Inr a Return True
        have "\<forall>cmd\<in>set (commands es s2). \<not> writes_record cmd" by simp
        moreover from Cons.prems(2) Inr a Return True
        have "outcome_shell (mainLoop es s2) = Some s'" by (simp add: iteration_def)
        ultimately have "ENDSTATE s' = ENDSTATE s2" by (rule Cons.IH)
        with k Return e1 show ?thesis by simp
      next
        case False
        with Cons.prems(2) Inr a Return k e1 show ?thesis by (simp add: iteration_def)
      qed
    qed (use Cons.prems(2) Inr a k e1 in \<open>auto simp: iteration_def\<close>)
  qed
qed

lemma mainLoop_append:
  "mainLoop es s = Running s1 \<Longrightarrow> mainLoop (es @ es') s = mainLoop es' s1"
proof (induction es arbitrary: s)
  case Nil
  then show ?case by simp
next
  case (Cons e es)
  then show ?case
    by (auto split: sum.splits result.splits if_splits)
qed

text \<open>
  Claim C10. In a session that has so far run none of \<^verbatim>\<open>status\<close>, \<^verbatim>\<open>cd\<close> and a
  foreground launch (its commands were blank lines, comments and background launches
  only) and is still in its loop, \<^verbatim>\<open>ENDSTATE\<close> is the string \<^verbatim>\<open>NULL\<close> it was initialised
  with; a \<^verbatim>\<open>status\<close> line read next prints, after what the reaper printed, the prompt
  and \<^verbatim>\<open>NULL\<close> with a newline, and the loop goes on.
\<close>

theorem status_initial_sentinel:
  assumes "\<forall>cmd\<in>set (commands es (startup d input)). \<not> writes_record cmd"
    and "main d input es = Running s"
    and "stdin s = ''status\<newline>'' @ rest"
  shows "ENDSTATE s = ''NULL'' \<and>
    (\<exists>s'. iteration e s = Inr (Return 0 s') \<and>
       stdout s' = stdout (reaped e s) @ '': NULL\<newline>'' \<and>
       main d input (es @ [e]) = Running s')"
proof -
  have "outcome_shell (mainLoop es (startup d input)) = Some s"
    using assms(2) by (simp add: main_def)
  from mainLoop_keeps_record [OF assms(1) this]
  have n: "ENDSTATE s = ''NULL''" by (simp add: startup_def)
  define s' where "s' = (reaped e s)\<lparr>stdout := stdout (reaped e s) @ '': '' @ ENDSTATE s @ ''\<newline>'',
        stdin := rest, ENDSTATE := ''exit value 0''\<rparr>"
  have i: "iteration e s = Inr (Return 0 s')"
    using iteration_status [OF assms(3), of e] by (simp add: s'_def)
  have o: "stdout s' = stdout (reaped e s) @ '': NULL\<newline>''" by (simp add: s'_def n)
  have "main d input (es @ [e]) = mainLoop [e] s"
    using mainLoop_append [of es "startup d input" s "[e]"] assms(2) by (simp add: main_def)
  then have "main d input (es @ [e]) = Running s'" using i by simp
  with n i o show ?thesis by blast
qed

text \<open>
  The session of a blank line, a comment, \<^verbatim>\<open>sleep 100 &\<close> and \<^verbatim>\<open>status\<close> in the sample
  environment: \<^verbatim>\<open>status\<close> prints \<^verbatim>\<open>NULL\<close>.
\<close>

theorem status_initial_sentinel_witness:
  "map writes_record
     (commands [sample_env, sample_env, sample_env]
        (startup SIG_DFL ''\<newline># note\<newline>sleep 100 &\<newline>status\<newline>'')) = [False, False, False] \<and>
   (\<exists>s s'. main SIG_DFL ''\<newline># note\<newline>sleep 100 &\<newline>status\<newline>''
               [sample_env, sample_env, sample_env] = Running s \<and>
      stdin s = ''status\<newline>'' \<and> ENDSTATE s = ''NULL'' \<and>
      iteration sample_env s = Inr (Return 0 s') \<and>
      stdout s' = '': : : background pid is 100\<newline>: NULL\<newline>'' \<and>
      main SIG_DFL ''\<newline># note\<newline>sleep 100 &\<newline>status\<newline>''
        [sample_env, sample_env, sample_env, sample_env] = Running s')"
proof -
  let ?in = "''\<newline># note\<newline>sleep 100 &\<newline>status\<newline>''"
  let ?es = "[sample_env, sample_env, sample_env]"
  define s where "s = (startup SIG_DFL ''status\<newline>'')
      \<lparr>stdout := '': : : background pid is 100\<newline>'',
       jobs := [\<lparr>j_pid = 100, j_proc = fork_child (startup SIG_DFL []), j_status = None\<rparr>],
       waits := [NoHang (- 1), NoHang (- 1), NoHang (- 1)]\<rparr>"
  have c: "map writes_record (commands ?es (startup SIG_DFL ?in)) = [False, False, False]"
    by (simp add: loop_eval run_eval writes_record_def)
  then have "\<forall>b\<in>set (map writes_record (commands ?es (startup SIG_DFL ?in))). \<not> b"
    by simp
  then have q: "\<forall>cmd\<in>set (commands ?es (startup SIG_DFL ?in)). \<not> writes_record cmd"
    by simp
  have m: "main SIG_DFL ?in ?es = Running s"
    unfolding s_def by (simp add: loop_eval run_eval)
  have i: "stdin s = ''status\<newline>'' @ []" by (simp add: s_def startup_def)
  have o: "stdout (reaped sample_env s) = '': : : background pid is 100\<newline>''"
    by (simp add: s_def reaped_def cleanUp.simps waitpid_nohang_def job_ends_def sample_env_def
        startup_def)
  from status_initial_sentinel [OF q m i, of sample_env] obtain s' where
    "ENDSTATE s = ''NULL''" "iteration sample_env s = Inr (Return 0 s')"
    "stdout s' = stdout (reaped sample_env s) @ '': NULL\<newline>''"
    "main SIG_DFL ?in (?es @ [sample_env]) = Running s'" by blast
  with c m i o show ?thesis by auto
qed

end
